theory Spec2Isabelle
  imports Complex_Main "HOL-Library.Multiset" "HOL-Library.Sublist"
begin

section \<open>Numbers\<close>

text \<open>
  The engine of \<^verbatim>\<open>src/lib/optimizer/networkOptimizer.ts\<close> computes with TypeScript
  \<^verbatim>\<open>number\<close>s. Finite numbers are idealised as reals: the rounding of IEEE doubles and the
  sign of zero are not modelled. The non-finite values the program produces itself
  (\<^verbatim>\<open>Infinity\<close> as the start of a minimum search, \<^verbatim>\<open>NaN\<close> from \<^verbatim>\<open>0/0\<close>) are values of
  the type \<open>num\<close>, whose operations follow the ECMAScript rules for them. The numbers
  of the input records (coordinates, quality scores, facility counts) are finite: the engine
  takes its input from a cleaning stage that validates the coordinates and computes the scores.
\<close>

datatype num = Fin real | PInf | NInf | NaN

fun isFinite :: "num \<Rightarrow> bool" where
  "isFinite (Fin x) = True"
| "isFinite _ = False"

fun sgn_of :: "num \<Rightarrow> real" where
  "sgn_of (Fin x) = sgn x"
| "sgn_of PInf = 1"
| "sgn_of NInf = - 1"
| "sgn_of NaN = 0"

definition inf_of_sign :: "real \<Rightarrow> num" where
  "inf_of_sign s = (if s > 0 then PInf else if s < 0 then NInf else NaN)"

fun nneg :: "num \<Rightarrow> num" where
  "nneg (Fin x) = Fin (- x)"
| "nneg PInf = NInf"
| "nneg NInf = PInf"
| "nneg NaN = NaN"

fun nadd :: "num \<Rightarrow> num \<Rightarrow> num" where
  "nadd (Fin a) (Fin b) = Fin (a + b)"
| "nadd NaN _ = NaN"
| "nadd _ NaN = NaN"
| "nadd PInf NInf = NaN"
| "nadd NInf PInf = NaN"
| "nadd PInf _ = PInf"
| "nadd _ PInf = PInf"
| "nadd NInf _ = NInf"
| "nadd _ NInf = NInf"

definition nsub :: "num \<Rightarrow> num \<Rightarrow> num" where
  "nsub a b = nadd a (nneg b)"

fun nmul :: "num \<Rightarrow> num \<Rightarrow> num" where
  "nmul (Fin a) (Fin b) = Fin (a * b)"
| "nmul NaN _ = NaN"
| "nmul _ NaN = NaN"
| "nmul a b = inf_of_sign (sgn_of a * sgn_of b)"

text \<open>Division: a zero divisor is the positive zero, so \<^verbatim>\<open>0/0\<close> is \<^verbatim>\<open>NaN\<close> and
  \<^verbatim>\<open>x/0\<close> has the sign of \<^verbatim>\<open>x\<close>.\<close>

fun ndiv :: "num \<Rightarrow> num \<Rightarrow> num" where
  "ndiv (Fin a) (Fin b) = (if b \<noteq> 0 then Fin (a / b) else inf_of_sign a)"
| "ndiv NaN _ = NaN"
| "ndiv _ NaN = NaN"
| "ndiv (Fin a) _ = Fin 0"
| "ndiv PInf (Fin b) = (if b \<ge> 0 then PInf else NInf)"
| "ndiv NInf (Fin b) = (if b \<ge> 0 then NInf else PInf)"
| "ndiv _ _ = NaN"

fun nsqrt :: "num \<Rightarrow> num" where
  "nsqrt (Fin a) = (if a < 0 then NaN else Fin (sqrt a))"
| "nsqrt PInf = PInf"
| "nsqrt _ = NaN"

fun nabs :: "num \<Rightarrow> num" where
  "nabs (Fin a) = Fin \<bar>a\<bar>"
| "nabs NaN = NaN"
| "nabs _ = PInf"

fun nexp :: "num \<Rightarrow> num" where
  "nexp (Fin a) = Fin (exp a)"
| "nexp PInf = PInf"
| "nexp NInf = Fin 0"
| "nexp NaN = NaN"

text \<open>Comparisons with \<^verbatim>\<open>NaN\<close> are false.\<close>

fun nlt :: "num \<Rightarrow> num \<Rightarrow> bool" where
  "nlt (Fin a) (Fin b) = (a < b)"
| "nlt NaN _ = False"
| "nlt _ NaN = False"
| "nlt _ NInf = False"
| "nlt PInf _ = False"
| "nlt _ _ = True"

definition ngt :: "num \<Rightarrow> num \<Rightarrow> bool" where
  "ngt a b = nlt b a"

text \<open>\<^verbatim>\<open>Math.max\<close> and \<^verbatim>\<open>Math.min\<close> return \<^verbatim>\<open>NaN\<close> as soon as one argument is.\<close>

fun nmax :: "num \<Rightarrow> num \<Rightarrow> num" where
  "nmax NaN _ = NaN"
| "nmax _ NaN = NaN"
| "nmax a b = (if nlt a b then b else a)"

fun nmin :: "num \<Rightarrow> num \<Rightarrow> num" where
  "nmin NaN _ = NaN"
| "nmin _ NaN = NaN"
| "nmin a b = (if nlt b a then b else a)"

text \<open>\<^verbatim>\<open>Math.round\<close> rounds halves up: it is \<open>\<lfloor>x + 1/2\<rfloor>\<close>, which is \<^const>\<open>round\<close>.\<close>

fun nround :: "num \<Rightarrow> num" where
  "nround (Fin a) = Fin (of_int (round a))"
| "nround a = a"

text \<open>\<^verbatim>\<open>Math.round(x * 10) / 10\<close> and \<^verbatim>\<open>Math.round(x * 100) / 100\<close> on a finite number.\<close>

definition round1 :: "real \<Rightarrow> real" where
  "round1 x = of_int (round (x * 10)) / 10"

fun nle :: "num \<Rightarrow> num \<Rightarrow> bool" where
  "nle (Fin a) (Fin b) = (a \<le> b)"
| "nle NaN _ = False"
| "nle _ NaN = False"
| "nle NInf _ = True"
| "nle _ PInf = True"
| "nle _ _ = False"

definition nround1 :: "num \<Rightarrow> num" where
  "nround1 x = ndiv (nround (nmul x (Fin 10))) (Fin 10)"

text \<open>The finite value of a number (0 for the others); it is used in statements only.\<close>

fun fin_val :: "num \<Rightarrow> real" where
  "fin_val (Fin x) = x"
| "fin_val _ = 0"

section \<open>Constants\<close>

abbreviation (input) WHO_ACCESS_THRESHOLD :: real where "WHO_ACCESS_THRESHOLD \<equiv> 90"
abbreviation (input) MAX_EDGE_DISTANCE :: real where "MAX_EDGE_DISTANCE \<equiv> 300"
abbreviation (input) MAX_DISPLAY_DISTANCE :: real where "MAX_DISPLAY_DISTANCE \<equiv> 2400"
abbreviation (input) MAX_DISPLAY_TIME :: real where "MAX_DISPLAY_TIME \<equiv> 2880"
abbreviation (input) GRID_CELL_SIZE :: real where "GRID_CELL_SIZE \<equiv> 0.5"
abbreviation (input) TRAVEL_SPEEDS_urban :: real where "TRAVEL_SPEEDS_urban \<equiv> 30"
abbreviation (input) TRAVEL_SPEEDS_rural :: real where "TRAVEL_SPEEDS_rural \<equiv> 60"

section \<open>Distances and travel times\<close>

text \<open>\<^verbatim>\<open>formatDistance\<close> and \<^verbatim>\<open>estimateTravelTime\<close> (lines 199 to 211).\<close>

definition formatDistance :: "num \<Rightarrow> real" where
  "formatDistance distanceKm =
     (case distanceKm of
        Fin d \<Rightarrow> if d > MAX_DISPLAY_DISTANCE then MAX_DISPLAY_DISTANCE else round1 d
      | _ \<Rightarrow> MAX_DISPLAY_DISTANCE)"

definition estimateTravelTime :: "num \<Rightarrow> bool \<Rightarrow> real" where
  "estimateTravelTime distanceKm isUrban =
     (case distanceKm of
        Fin d \<Rightarrow>
          (let cappedDistance = min d MAX_DISPLAY_DISTANCE;
               speed = (if isUrban then TRAVEL_SPEEDS_urban else TRAVEL_SPEEDS_rural)
           in min (of_int (round ((cappedDistance / speed) * 60 * 10)) / 10) MAX_DISPLAY_TIME)
      | _ \<Rightarrow> MAX_DISPLAY_TIME)"

section \<open>Statistics\<close>

datatype significance = significant | marginal | not_significant

record StatisticalAnalysis =
  pValue :: num
  confidenceInterval :: "num \<times> num"
  effectSize :: num
  sampleSize :: nat
  standardError :: num
  significanceLevel :: significance

text \<open>\<^verbatim>\<open>normalCDF\<close> (lines 696 to 704) and \<^verbatim>\<open>calculateStatistics\<close> (lines 646 to 694).\<close>

definition normalCDF :: "num \<Rightarrow> num" where
  "normalCDF x0 =
     (let a1 = Fin 0.254829592; a2 = Fin (- 0.284496736); a3 = Fin 1.421413741;
          a4 = Fin (- 1.453152027); a5 = Fin 1.061405429; p = Fin 0.3275911;
          sign = (if nlt x0 (Fin 0) then Fin (- 1) else Fin 1);
          x = nmul (nabs x0) (Fin 0.7071067811865476);
          t = ndiv (Fin 1) (nadd (Fin 1) (nmul p x));
          y = nsub (Fin 1)
                (nmul (nmul (nadd (nmul (nadd (nmul (nadd (nmul (nadd (nmul a5 t) a4) t) a3) t) a2) t) a1) t)
                      (nexp (nmul (nneg x) x)))
      in nmul (Fin 0.5) (nadd (Fin 1) (nmul sign y)))"

definition calculateStatistics :: "num list \<Rightarrow> StatisticalAnalysis" where
  "calculateStatistics responseTimes =
     (let n = length responseTimes in
      if n = 0 then
        \<lparr> pValue = Fin 1, confidenceInterval = (Fin 0, Fin 0), effectSize = Fin 0,
          sampleSize = 0, standardError = Fin 0, significanceLevel = not_significant \<rparr>
      else
        let sum = fold (\<lambda>x s. nadd s x) responseTimes (Fin 0);
            mean = ndiv sum (Fin (real n));
            varianceSum = fold (\<lambda>x s. let diff = nsub x mean in nadd s (nmul diff diff))
                            responseTimes (Fin 0);
            variance = ndiv varianceSum (Fin (real n - 1));
            stdDev = nsqrt variance;
            standardError = ndiv stdDev (nsqrt (Fin (real n)));
            zScore = Fin 1.96;
            confidenceInterval =
              (nmax (Fin 0) (nsub mean (nmul zScore standardError)),
               nadd mean (nmul zScore standardError));
            effectSize = (if ngt stdDev (Fin 0)
                          then ndiv (nsub (Fin WHO_ACCESS_THRESHOLD) mean) stdDev else Fin 0);
            tStatistic = (if ngt standardError (Fin 0)
                          then ndiv (nsub mean (Fin WHO_ACCESS_THRESHOLD)) standardError else Fin 0);
            pValue = (if n > 30
                      then nmax (Fin 0.0001)
                             (nmin (Fin 1)
                                (nmul (Fin 2) (nsub (Fin 1) (normalCDF (nabs tStatistic)))))
                      else Fin 0.05)
        in \<lparr> pValue = pValue,
             confidenceInterval = confidenceInterval,
             effectSize = ndiv (nround (nmul effectSize (Fin 100))) (Fin 100),
             sampleSize = n,
             standardError = ndiv (nround (nmul standardError (Fin 100))) (Fin 100),
             significanceLevel =
               (if nlt pValue (Fin 0.01) then significant
                else if nlt pValue (Fin 0.05) then marginal else not_significant) \<rparr>)"


section \<open>Strings\<close>

text \<open>
  Strings are lists of 8-bit characters (the Latin-1 range of the program's UTF-16 strings).
  \<open>toLowerCase\<close> maps the upper-case letters of that range, \<open>trim\<close> removes its white
  space (tab, line feed, vertical tab, form feed, carriage return, space, no-break space), and
  \<open>str_includes\<close> is the substring test of \<^verbatim>\<open>String.prototype.includes\<close>.
\<close>

definition toLowerChar :: "char \<Rightarrow> char" where
  "toLowerChar c =
     (let k = (of_char c :: nat)
      in if (65 \<le> k \<and> k \<le> 90) \<or> (192 \<le> k \<and> k \<le> 222 \<and> k \<noteq> 215)
         then char_of (k + 32) else c)"

definition toLowerCase :: "string \<Rightarrow> string" where
  "toLowerCase s = map toLowerChar s"

definition isWhiteSpace :: "char \<Rightarrow> bool" where
  "isWhiteSpace c = ((of_char c :: nat) \<in> {9, 10, 11, 12, 13, 32, 160})"

definition trim :: "string \<Rightarrow> string" where
  "trim s = rev (dropWhile isWhiteSpace (rev (dropWhile isWhiteSpace s)))"

definition startsWith :: "string \<Rightarrow> string \<Rightarrow> bool" where
  "startsWith s sub = (take (length sub) s = sub)"

fun str_includes :: "string \<Rightarrow> string \<Rightarrow> bool" where
  "str_includes [] sub = (sub = [])"
| "str_includes (c # cs) sub = (startsWith (c # cs) sub \<or> str_includes cs sub)"

section \<open>Great-circle distance\<close>

text \<open>\<^verbatim>\<open>Math.atan2(y, x)\<close>.\<close>

definition atan2 :: "real \<Rightarrow> real \<Rightarrow> real" where
  "atan2 y x =
     (if x > 0 then arctan (y / x)
      else if x < 0 then (if y \<ge> 0 then arctan (y / x) + pi else arctan (y / x) - pi)
      else if y > 0 then pi / 2
      else if y < 0 then - pi / 2
      else 0)"

text \<open>
  The two square roots of \<open>haversineDistance\<close> are taken of numbers between 0 and 1
  (lemma \<open>haversine_radicand\<close> below), where \<^const>\<open>sqrt\<close> is \<^verbatim>\<open>Math.sqrt\<close>.
\<close>

definition haversineDistance :: "real \<Rightarrow> real \<Rightarrow> real \<Rightarrow> real \<Rightarrow> real" where
  "haversineDistance lat1 lng1 lat2 lng2 =
     (let R = 6371;
          dLat = (lat2 - lat1) * 0.017453292519943295;
          dLng = (lng2 - lng1) * 0.017453292519943295;
          a = sin (dLat * 0.5) * sin (dLat * 0.5) +
              cos (lat1 * 0.017453292519943295) * cos (lat2 * 0.017453292519943295) *
              sin (dLng * 0.5) * sin (dLng * 0.5)
      in R * 2 * atan2 (sqrt a) (sqrt (1 - a)))"

section \<open>Data model\<close>

text \<open>
  The fields of a cleaned facility that the engine reads. \<open>f_coordinates\<close> is the optional
  \<^verbatim>\<open>coordinates\<close> object (latitude, longitude), \<open>f_stateOrRegion\<close> is
  \<^verbatim>\<open>address?.stateOrRegion\<close>, \<open>f_dataQualityScore\<close> the optional \<^verbatim>\<open>dataQualityScore\<close>.
\<close>

record CleanedFacility =
  f_id :: string
  f_name :: string
  f_validCoordinates :: bool
  f_coordinates :: "(real \<times> real) option"
  f_stateOrRegion :: "string option"
  f_capabilities :: "string list"
  f_dataQualityScore :: "real option"

record RegionStats =
  rs_name :: string
  rs_totalFacilities :: real

record OptimizationNode =
  facilityId :: string
  name :: string
  lat :: real
  lng :: real
  region :: string
  capabilities :: "string list"
  qualityScore :: real
  responseTimeMinutes :: num
  nearestFacilityDistance :: num
  nearestFacilityName :: string

record NetworkEdge =
  e_from :: string
  e_to :: string
  e_fromName :: string
  e_toName :: string
  distance :: real
  travelTime :: real
  weight :: real

record FacilityDistance =
  d_facilityId :: string
  d_facilityName :: string
  d_nearestFacilityId :: string
  d_nearestFacilityName :: string
  distanceKm :: real
  travelTimeMinutes :: real

section \<open>Spatial grid\<close>

text \<open>
  The grid is a \<^verbatim>\<open>Map\<close> from the key \<^verbatim>\<open>"<cellLat>,<cellLng>"\<close> to the indices of the nodes in
  that cell, in insertion order. The key is modelled by the pair of cell numbers it prints, and
  an absent key by the empty list (the code reads an absent key as no index at all).
\<close>

type_synonym cell = "int \<times> int"

definition getCellKey :: "real \<Rightarrow> real \<Rightarrow> cell" where
  "getCellKey la lo = (\<lfloor>la / GRID_CELL_SIZE\<rfloor>, \<lfloor>lo / GRID_CELL_SIZE\<rfloor>)"

definition SpatialGrid :: "OptimizationNode list \<Rightarrow> (cell \<Rightarrow> nat list)" where
  "SpatialGrid nodes =
     fold (\<lambda>i grid. let key = getCellKey (lat (nodes ! i)) (lng (nodes ! i))
                     in grid (key := grid key @ [i]))
          [0 ..< length nodes] (\<lambda>_. [])"

definition getNearbyIndices :: "(cell \<Rightarrow> nat list) \<Rightarrow> real \<Rightarrow> real \<Rightarrow> int \<Rightarrow> nat list" where
  "getNearbyIndices grid la lo radiusCells =
     (let centerCellLat = \<lfloor>la / GRID_CELL_SIZE\<rfloor>;
          centerCellLng = \<lfloor>lo / GRID_CELL_SIZE\<rfloor>
      in concat (map (\<lambda>dLat.
           concat (map (\<lambda>dLng. grid (centerCellLat + dLat, centerCellLng + dLng))
                       [- radiusCells .. radiusCells]))
           [- radiusCells .. radiusCells]))"

section \<open>Building the graph\<close>

text \<open>
  \<^verbatim>\<open>buildNetworkGraph\<close> (lines 216 to 323) in its parts: \<open>buildNodes\<close> is the loop that
  constructs the nodes (lines 227 to 241); \<open>visitCandidate\<close> is the body of the loop over the
  nearby indices (lines 260 to 292), of which \<open>trackNearest\<close> is the update of the nearest
  facility; \<open>fullScan\<close> is the scan of all nodes (lines 296 to 304); \<open>processNode\<close> is the
  body of the loop over the nodes (lines 251 to 320).
\<close>

definition buildNodes :: "CleanedFacility list \<Rightarrow> OptimizationNode list" where
  "buildNodes facilities =
     concat (map (\<lambda>facility.
       case f_coordinates facility of
         None \<Rightarrow> []
       | Some (la, lo) \<Rightarrow>
           if \<not> f_validCoordinates facility then []
           else [\<lparr> facilityId = f_id facility,
                   name = f_name facility,
                   lat = la,
                   lng = lo,
                   region = (case f_stateOrRegion facility of
                               None \<Rightarrow> ''Unknown''
                             | Some r \<Rightarrow> if r = [] then ''Unknown'' else r),
                   capabilities = f_capabilities facility,
                   qualityScore = (case f_dataQualityScore facility of None \<Rightarrow> 50 | Some q \<Rightarrow> q),
                   responseTimeMinutes = Fin 0,
                   nearestFacilityDistance = PInf,
                   nearestFacilityName = ''None'' \<rparr>]) facilities)"

text \<open>
  The state of the scan of one node: the nearest facility found so far, and the edge list with
  the set of edge keys, both shared by all nodes. An edge key \<^verbatim>\<open>"<i>-<j>"\<close> with
  \<^verbatim>\<open>i < j\<close> is modelled by the pair of indices.
\<close>

record scan =
  minDistance :: num
  nearestName :: string
  nearestId :: string
  s_edges :: "NetworkEdge list"
  s_edgeSet :: "(nat \<times> nat) set"

definition trackNearest :: "OptimizationNode \<Rightarrow> real \<Rightarrow> scan \<Rightarrow> scan" where
  "trackNearest other dkm s =
     (if nlt (Fin dkm) (minDistance s)
      then s\<lparr> minDistance := Fin dkm, nearestName := name other, nearestId := facilityId other \<rparr>
      else s)"

definition visitCandidate :: "OptimizationNode list \<Rightarrow> nat \<Rightarrow> nat \<Rightarrow> scan \<Rightarrow> scan" where
  "visitCandidate nodes i j s =
     (if i = j then s
      else
        let node = nodes ! i;
            other = nodes ! j;
            dkm = haversineDistance (lat node) (lng node) (lat other) (lng other);
            s1 = trackNearest other dkm s
        in if dkm \<le> MAX_EDGE_DISTANCE then
             let edgeKey = (if i < j then (i, j) else (j, i))
             in if edgeKey \<in> s_edgeSet s1 then s1
                else
                  let tt = estimateTravelTime (Fin dkm) (dkm < 20);
                      qualityBonus = (qualityScore other - qualityScore node) / 100
                  in s1\<lparr> s_edgeSet := insert edgeKey (s_edgeSet s1),
                          s_edges := s_edges s1 @
                            [\<lparr> e_from = facilityId node,
                               e_to = facilityId other,
                               e_fromName = name node,
                               e_toName = name other,
                               distance = formatDistance (Fin dkm),
                               travelTime = tt,
                               weight = tt * (1 - qualityBonus * 0.2) \<rparr>] \<rparr>
           else s1)"

definition fullScan :: "OptimizationNode list \<Rightarrow> nat \<Rightarrow> scan \<Rightarrow> scan" where
  "fullScan nodes i s =
     fold (\<lambda>j s. if i = j then s
                  else trackNearest (nodes ! j)
                         (haversineDistance (lat (nodes ! i)) (lng (nodes ! i))
                                            (lat (nodes ! j)) (lng (nodes ! j))) s)
          [0 ..< length nodes] s"

record graph =
  g_nodes :: "OptimizationNode list"
  g_edges :: "NetworkEdge list"
  g_edgeSet :: "(nat \<times> nat) set"
  g_distanceMatrix :: "FacilityDistance list"

definition processNode :: "(cell \<Rightarrow> nat list) \<Rightarrow> nat \<Rightarrow> graph \<Rightarrow> graph" where
  "processNode spatialGrid i g =
     (let nodes = g_nodes g;
          node = nodes ! i;
          nearbyIndices = getNearbyIndices spatialGrid (lat node) (lng node) 4;
          s0 = \<lparr> minDistance = PInf, nearestName = ''None'', nearestId = [],
                 s_edges = g_edges g, s_edgeSet = g_edgeSet g \<rparr>;
          s1 = fold (visitCandidate nodes i) nearbyIndices s0;
          s2 = (if minDistance s1 = PInf \<and> length nodes > 1 then fullScan nodes i s1 else s1);
          node' = node\<lparr> nearestFacilityDistance := Fin (formatDistance (minDistance s2)),
                        nearestFacilityName := nearestName s2 \<rparr>
      in \<lparr> g_nodes = nodes[i := node'],
           g_edges = s_edges s2,
           g_edgeSet = s_edgeSet s2,
           g_distanceMatrix = g_distanceMatrix g @
             (if nearestId s2 \<noteq> []
              then [\<lparr> d_facilityId = facilityId node,
                      d_facilityName = name node,
                      d_nearestFacilityId = nearestId s2,
                      d_nearestFacilityName = nearestName s2,
                      distanceKm = formatDistance (minDistance s2),
                      travelTimeMinutes = estimateTravelTime (minDistance s2) False \<rparr>]
              else []) \<rparr>)"

definition buildNetworkGraph :: "CleanedFacility list \<Rightarrow> graph" where
  "buildNetworkGraph facilities =
     (let nodes = buildNodes facilities;
          g0 = \<lparr> g_nodes = nodes, g_edges = [], g_edgeSet = {}, g_distanceMatrix = [] \<rparr>
      in if length nodes = 0 then g0
         else fold (processNode (SpatialGrid nodes)) [0 ..< length nodes] g0)"


section \<open>Hub facilities\<close>

text \<open>
  \<^verbatim>\<open>Array.prototype.sort\<close> is stable, and the comparators of this program order finite keys:
  \<^verbatim>\<open>(a, b) => b.score - a.score\<close> is \<^const>\<open>sort_key\<close> on the negated score (a stable
  insertion sort), \<^verbatim>\<open>(a, b) => a - b\<close> is \<^const>\<open>sort_key\<close> on the value.
\<close>

text \<open>
  \<^verbatim>\<open>identifyHubFacilities\<close> (lines 328 to 344). \<open>connectivity\<close> is its \<^verbatim>\<open>Map\<close> of
  edge counts; an absent key reads as 0 (\<^verbatim>\<open>get(k) || 0\<close>).
\<close>

definition connectivity :: "NetworkEdge list \<Rightarrow> (string \<Rightarrow> nat)" where
  "connectivity edges =
     fold (\<lambda>edge c. let c1 = c (e_from edge := c (e_from edge) + 1)
                     in c1 (e_to edge := c1 (e_to edge) + 1))
          edges (\<lambda>_. 0)"

definition identifyHubFacilities ::
  "OptimizationNode list \<Rightarrow> NetworkEdge list \<Rightarrow> nat \<Rightarrow> string list" where
  "identifyHubFacilities nodes edges topN =
     (let c = connectivity edges;
          scored = map (\<lambda>node.
                     (facilityId node,
                      real (if c (facilityId node) = 0 then 1 else c (facilityId node)) *
                      (qualityScore node / 100))) nodes
      in map fst (take topN (sort_key (\<lambda>s. - snd s) scored)))"

section \<open>Region centroids\<close>

text \<open>
  \<open>getRegionCentroid\<close> reads \<^verbatim>\<open>regionCentroids[normalizedName]\<close> on a plain object, so a
  name that is a member of \<^verbatim>\<open>Object.prototype\<close> finds that member, which is truthy and is
  returned: an object without \<^verbatim>\<open>lat\<close> and \<^verbatim>\<open>lng\<close>. The result \<open>None\<close> stands for it;
  every distance computed from it is \<^verbatim>\<open>NaN\<close>.
\<close>

text \<open>\<^verbatim>\<open>getRegionCentroid\<close> (lines 447 to 485); a point is a latitude and a longitude.\<close>

type_synonym point = "real \<times> real"

definition regionCentroids :: "(string \<times> point) list" where
  "regionCentroids =
     [(''Greater Accra'', (5.6037, - 0.1870)),
      (''Ashanti'', (6.6885, - 1.6244)),
      (''Western'', (5.0527, - 2.2565)),
      (''Eastern'', (6.3333, - 0.5000)),
      (''Central'', (5.5000, - 1.0000)),
      (''Northern'', (9.5000, - 1.0000)),
      (''Upper East'', (10.7833, - 0.8167)),
      (''Upper West'', (10.2500, - 2.0833)),
      (''Volta'', (6.5781, 0.4502)),
      (''Brong Ahafo'', (7.9500, - 1.6750)),
      (''Bono'', (7.5000, - 2.5000)),
      (''Bono East'', (7.7500, - 1.0000)),
      (''Ahafo'', (7.0000, - 2.5000)),
      (''Savannah'', (9.0000, - 1.5000)),
      (''North East'', (10.5000, - 0.2500)),
      (''Oti'', (7.5000, 0.3000)),
      (''Western North'', (6.0000, - 2.5000))]"

definition objectPrototypeMembers :: "string list" where
  "objectPrototypeMembers =
     [''constructor'', ''__defineGetter__'', ''__defineSetter__'', ''hasOwnProperty'',
      ''__lookupGetter__'', ''__lookupSetter__'', ''isPrototypeOf'', ''propertyIsEnumerable'',
      ''toString'', ''valueOf'', ''__proto__'', ''toLocaleString'']"

definition getRegionCentroid :: "string \<Rightarrow> point option" where
  "getRegionCentroid regionName =
     (let normalizedName = trim regionName in
      case map_of regionCentroids normalizedName of
        Some coords \<Rightarrow> Some coords
      | None \<Rightarrow>
          if normalizedName \<in> set objectPrototypeMembers then None
          else
            let nameLower = toLowerCase normalizedName
            in case filter (\<lambda>(key, coords). str_includes (toLowerCase key) nameLower \<or>
                                            str_includes nameLower (toLowerCase key))
                           regionCentroids of
                 (key, coords) # _ \<Rightarrow> Some coords
               | [] \<Rightarrow> Some (7.9465, - 1.0232))"

text \<open>The distance from a centroid to a node, \<^verbatim>\<open>NaN\<close> for a centroid without coordinates.\<close>

definition centroidDistance :: "point option \<Rightarrow> OptimizationNode \<Rightarrow> num" where
  "centroidDistance c node =
     (case c of
        None \<Rightarrow> NaN
      | Some (la, lo) \<Rightarrow> Fin (haversineDistance la lo (lat node) (lng node)))"

section \<open>Coverage gaps\<close>

text \<open>
  \<^verbatim>\<open>detectCoverageGaps\<close> (lines 350 to 442) in its parts: \<open>regionNodeMap\<close> groups the nodes
  by region (lines 354 to 360); \<open>regionFacilitiesOf\<close> finds the nodes of a region, by its exact
  label or else by containment of the lower-case labels (lines 365 to 375); \<open>regionAccess\<close>
  computes \<^verbatim>\<open>avgDistance\<close>, \<^verbatim>\<open>avgTime\<close> and \<^verbatim>\<open>centroid\<close> (lines 377 to 418);
  \<open>regionGap\<close> emits the gap of a region, if any (lines 420 to 437); \<open>collectGaps\<close> is the
  loop over the region summaries, and \<open>detectCoverageGaps\<close> sorts its result (line 441).
\<close>

record CoverageGap =
  regionName :: string
  centroid :: "point option"
  gap_nearestFacilityDistance :: real
  nearestFacilityTime :: real
  populationEstimate :: real
  urgencyScore :: real
  recommendedAction :: string

text \<open>
  The \<^verbatim>\<open>Map\<close> from region label to the nodes of the region is an association list in
  insertion order, which is the order its entries are iterated in.
\<close>

fun regionMapAdd ::
  "OptimizationNode \<Rightarrow> (string \<times> OptimizationNode list) list \<Rightarrow>
   (string \<times> OptimizationNode list) list" where
  "regionMapAdd node [] = [(region node, [node])]"
| "regionMapAdd node ((k, l) # m) =
     (if k = region node then (k, l @ [node]) # m else (k, l) # regionMapAdd node m)"

definition regionNodeMap :: "OptimizationNode list \<Rightarrow> (string \<times> OptimizationNode list) list" where
  "regionNodeMap nodes = fold regionMapAdd nodes []"

definition regionFacilitiesOf ::
  "(string \<times> OptimizationNode list) list \<Rightarrow> string \<Rightarrow> OptimizationNode list" where
  "regionFacilitiesOf m rname =
     (let exact = (case map_of m rname of Some l \<Rightarrow> l | None \<Rightarrow> [])
      in if length exact = 0 then
           let regionLower = toLowerCase rname
           in concat (map snd
                (filter (\<lambda>(key, nodeList). str_includes (toLowerCase key) regionLower \<or>
                                            str_includes regionLower (toLowerCase key)) m))
         else exact)"

text \<open>
  The average distance, the average time and the centroid of one region: the first branch is the
  region without facilities, the second the region with facilities.
\<close>

definition regionAccess ::
  "OptimizationNode list \<Rightarrow> OptimizationNode list \<Rightarrow> string \<Rightarrow> real \<times> real \<times> point option" where
  "regionAccess nodes regionFacilities rname =
     (if length regionFacilities = 0 then
        let c = getRegionCentroid rname;
            nearestDist = fold (\<lambda>node nearest.
                             let dkm = centroidDistance c node
                             in if nlt dkm nearest then dkm else nearest) nodes PInf;
            avgDistance = (case nearestDist of Fin d \<Rightarrow> d | _ \<Rightarrow> 100);
            avgTime = estimateTravelTime (Fin avgDistance) False
        in (avgDistance, avgTime, c)
      else
        let valid = filter (\<lambda>f. case nearestFacilityDistance f of Fin d \<Rightarrow> d > 0 | _ \<Rightarrow> False)
                      regionFacilities;
            totalMinDistance = fold (\<lambda>f t. t + (case nearestFacilityDistance f of Fin d \<Rightarrow> d | _ \<Rightarrow> 0))
                                 valid 0;
            validCount = length valid;
            avgDistance = (if validCount > 0 then totalMinDistance / real validCount else 0);
            avgTime = estimateTravelTime (Fin avgDistance) (avgDistance < 20)
        in (avgDistance, avgTime,
            Some (fold (\<lambda>f s. s + lat f) regionFacilities 0 / real (length regionFacilities),
                  fold (\<lambda>f s. s + lng f) regionFacilities 0 / real (length regionFacilities))))"

definition regionGap :: "OptimizationNode list \<Rightarrow> (string \<times> OptimizationNode list) list \<Rightarrow>
    RegionStats \<Rightarrow> CoverageGap list" where
  "regionGap nodes m r =
     (case regionAccess nodes (regionFacilitiesOf m (rs_name r)) (rs_name r) of
        (avgDistance, avgTime, c) \<Rightarrow>
          if avgTime > WHO_ACCESS_THRESHOLD then
            [\<lparr> regionName = rs_name r,
               centroid = c,
               gap_nearestFacilityDistance = round1 avgDistance,
               nearestFacilityTime = round1 avgTime,
               populationEstimate =
                 (if rs_totalFacilities r = 0 then 1 else rs_totalFacilities r) * 30000 + 50000,
               urgencyScore = min (avgTime / WHO_ACCESS_THRESHOLD) 1.0,
               recommendedAction =
                 (if avgTime > 180 then ''Deploy mobile health unit immediately''
                  else if avgTime > 120 then ''Establish permanent facility within 2 years''
                  else ''Enhance existing facility capabilities'') \<rparr>]
          else [])"

definition collectGaps :: "OptimizationNode list \<Rightarrow> RegionStats list \<Rightarrow> CoverageGap list" where
  "collectGaps nodes regionStats =
     concat (map (regionGap nodes (regionNodeMap nodes)) regionStats)"

definition detectCoverageGaps :: "OptimizationNode list \<Rightarrow> RegionStats list \<Rightarrow> CoverageGap list" where
  "detectCoverageGaps nodes regionStats =
     sort_key (\<lambda>g. - urgencyScore g) (collectGaps nodes regionStats)"


section \<open>Metrics\<close>

record OptimizationMetrics =
  averageResponseTime :: num
  medianResponseTime :: num
  p95ResponseTime :: num
  coveragePercentage :: num
  networkEfficiency :: real
  paretoScore :: num
  totalFacilities :: nat
  avgInterFacilityDistance :: real
  maxInterFacilityDistance :: real
  minInterFacilityDistance :: real

section \<open>Critical insights\<close>

text \<open>
  \<^verbatim>\<open>generateCriticalInsights\<close> (lines 490 to 641) in its parts: \<open>connectionCounts\<close> (lines
  506 to 512), \<open>hubScores\<close> (lines 515 to 525), \<open>sortedHubs\<close> (line 528), \<open>selectHubs\<close>
  (the loop of lines 532 to 538), \<open>optimalLocation\<close> (lines 541 to 559),
  \<open>recommendedGaps\<close> and \<open>recommendedFacility\<close> (lines 562 to 594), \<open>populationCenter\<close>
  (lines 597 to 605) and \<open>nodeBottlenecks\<close> (the loop of lines 610 to 622).
\<close>

datatype grade = Grade_A | Grade_B | Grade_C | Grade_D | Grade_F
datatype severity = critical | high | medium
datatype facilityType = hospital | clinic | health_center

text \<open>
  The texts that print numbers (\<^verbatim>\<open>reason\<close>, \<^verbatim>\<open>justification\<close>, \<^verbatim>\<open>issue\<close>) are left out
  of the records: they are not read again.
\<close>

record OptimalLocation =
  ol_name :: string
  ol_coordinates :: point
  currentCoverageRadius :: int
  populationServed :: int
  rank :: nat

record RecommendedFacility =
  suggestedLocation :: "point option"
  rf_facilityType :: facilityType
  priority :: severity
  estimatedPopulationServed :: real
  nearestExistingFacility :: string
  distanceFromNearest :: num

record PopulationCenter =
  pc_name :: string
  pc_coordinates :: "point option"
  estimatedPopulation :: real
  pc_nearestFacilityDistance :: real
  pc_nearestFacilityName :: string
  accessTimeMinutes :: real
  meetsWHOStandard :: bool

record NetworkBottleneck =
  location :: string
  nb_severity :: severity
  recommendation :: string

record CriticalInsights =
  optimalHubLocations :: "OptimalLocation list"
  recommendedNewFacilities :: "RecommendedFacility list"
  underservedPopulationCenters :: "PopulationCenter list"
  networkBottlenecks :: "NetworkBottleneck list"
  whoComplianceScore :: int
  accessibilityGrade :: grade

text \<open>
  The \<^verbatim>\<open>Map\<close> from a facility id to the \<^verbatim>\<open>Set\<close> of the ids it shares an edge with; an
  absent key reads as the empty set (size 0).
\<close>

definition connectionCounts :: "NetworkEdge list \<Rightarrow> (string \<Rightarrow> string set)" where
  "connectionCounts edges =
     fold (\<lambda>edge m. let m1 = m (e_from edge := insert (e_to edge) (m (e_from edge)))
                     in m1 (e_to edge := insert (e_from edge) (m1 (e_to edge))))
          edges (\<lambda>_. {})"

record hub =
  h_node :: OptimizationNode
  uniqueConnections :: nat
  hubScore :: real
  nearestDist :: real

definition hubScores :: "OptimizationNode list \<Rightarrow> NetworkEdge list \<Rightarrow> hub list" where
  "hubScores nodes edges =
     map (\<lambda>node.
            let uc = card (connectionCounts edges (facilityId node));
                q = qualityScore node;
                nd = (case nearestFacilityDistance node of Fin d \<Rightarrow> d | _ \<Rightarrow> 100);
                accessibilityFactor = max 1 (100 - nd) / 100
            in \<lparr> h_node = node, uniqueConnections = uc,
                 hubScore = real uc * 0.4 + q * 0.4 + accessibilityFactor * 20,
                 nearestDist = nd \<rparr>) nodes"

definition sortedHubs :: "OptimizationNode list \<Rightarrow> NetworkEdge list \<Rightarrow> hub list" where
  "sortedHubs nodes edges = sort_key (\<lambda>h. - hubScore h) (hubScores nodes edges)"

fun selectHubs :: "hub list \<Rightarrow> hub list \<Rightarrow> string set \<Rightarrow> hub list" where
  "selectHubs [] selectedHubs usedRegions = selectedHubs"
| "selectHubs (h # hs) selectedHubs usedRegions =
     (if length selectedHubs \<ge> 5 then selectedHubs
      else if length selectedHubs < 3 \<and> region (h_node h) \<in> usedRegions
           then selectHubs hs selectedHubs usedRegions
      else selectHubs hs (selectedHubs @ [h]) (insert (region (h_node h)) usedRegions))"

definition selectedHubs :: "OptimizationNode list \<Rightarrow> NetworkEdge list \<Rightarrow> hub list" where
  "selectedHubs nodes edges = selectHubs (sortedHubs nodes edges) [] {}"

definition optimalLocation :: "nat \<times> hub \<Rightarrow> OptimalLocation" where
  "optimalLocation p =
     (case p of (index, item) \<Rightarrow>
        let coverageRadius = round (nearestDist item * 0.6 + 2);
            populationBase = 50000 + qualityScore (h_node item) * 500;
            connectionBonus = real (uniqueConnections item) * 8000;
            regionBonus =
              (if str_includes (toLowerCase (region (h_node item))) ''accra'' then 100000
               else if str_includes (toLowerCase (region (h_node item))) ''ashanti'' then 80000
               else 30000)
        in \<lparr> ol_name = name (h_node item),
             ol_coordinates = (lat (h_node item), lng (h_node item)),
             currentCoverageRadius = coverageRadius,
             populationServed = round (populationBase + connectionBonus + regionBonus),
             rank = index + 1 \<rparr>)"

definition recommendedFacility :: "OptimizationNode list \<Rightarrow> CoverageGap \<Rightarrow> RecommendedFacility" where
  "recommendedFacility nodes gap =
     (let nearest = fold (\<lambda>node (nm, minDist).
                       let dkm = centroidDistance (centroid gap) node
                       in if nlt dkm minDist then (name node, dkm) else (nm, minDist))
                     nodes (''Nearest Regional Facility'', PInf)
      in \<lparr> suggestedLocation = centroid gap,
           rf_facilityType = (if populationEstimate gap > 100000 then hospital
                              else if populationEstimate gap > 30000 then clinic
                              else health_center),
           priority = (if urgencyScore gap \<ge> 0.9 then critical
                       else if urgencyScore gap \<ge> 0.7 then high else medium),
           estimatedPopulationServed = populationEstimate gap,
           nearestExistingFacility = fst nearest,
           distanceFromNearest = nround1 (snd nearest) \<rparr>)"

definition recommendedGaps :: "CoverageGap list \<Rightarrow> CoverageGap list" where
  "recommendedGaps coverageGaps =
     take 5 (filter (\<lambda>gap. urgencyScore gap \<ge> 0.5 \<and> nearestFacilityTime gap > WHO_ACCESS_THRESHOLD)
               coverageGaps)"

definition populationCenter :: "CoverageGap \<Rightarrow> PopulationCenter" where
  "populationCenter gap =
     \<lparr> pc_name = regionName gap,
       pc_coordinates = centroid gap,
       estimatedPopulation = populationEstimate gap,
       pc_nearestFacilityDistance = formatDistance (Fin (gap_nearestFacilityDistance gap)),
       pc_nearestFacilityName = ''Nearest Regional Facility'',
       accessTimeMinutes = min (nearestFacilityTime gap) 2880,
       meetsWHOStandard = (nearestFacilityTime gap \<le> WHO_ACCESS_THRESHOLD) \<rparr>"

fun nodeBottlenecks ::
  "(string \<Rightarrow> string set) \<Rightarrow> OptimizationNode list \<Rightarrow> NetworkBottleneck list \<Rightarrow>
   NetworkBottleneck list" where
  "nodeBottlenecks cc [] acc = acc"
| "nodeBottlenecks cc (node # rest) acc =
     (if length acc \<ge> 5 then acc
      else if card (cc (facilityId node)) \<le> 1 \<and> ngt (nearestFacilityDistance node) (Fin 50)
           then nodeBottlenecks cc rest
                  (acc @ [\<lparr> location = name node,
                            nb_severity = (if ngt (nearestFacilityDistance node) (Fin 100)
                                           then critical else high),
                            recommendation =
                              ''Establish intermediate health post or improve road access'' \<rparr>])
      else nodeBottlenecks cc rest acc)"

definition generateCriticalInsights ::
  "OptimizationNode list \<Rightarrow> NetworkEdge list \<Rightarrow> CoverageGap list \<Rightarrow> OptimizationMetrics \<Rightarrow>
   CriticalInsights" where
  "generateCriticalInsights nodes edges coverageGaps metrics =
     (let withinWHO = length (filter (\<lambda>n. nle (responseTimeMinutes n) (Fin WHO_ACCESS_THRESHOLD)) nodes);
          score = (if length nodes > 0
                   then round ((real withinWHO / real (length nodes)) * 100) else 0);
          selected = selectedHubs nodes edges;
          bottlenecks = nodeBottlenecks (connectionCounts edges) nodes []
      in \<lparr> optimalHubLocations = map optimalLocation (enumerate 0 selected),
           recommendedNewFacilities = map (recommendedFacility nodes) (recommendedGaps coverageGaps),
           underservedPopulationCenters = map populationCenter coverageGaps,
           networkBottlenecks =
             (if length bottlenecks < 5 \<and> avgInterFacilityDistance metrics > 80
              then bottlenecks @
                     [\<lparr> location = ''Network-wide'',
                        nb_severity = (if avgInterFacilityDistance metrics > 150
                                       then critical else medium),
                        recommendation = ''Prioritize mobile health units for remote areas'' \<rparr>]
              else bottlenecks),
           whoComplianceScore = score,
           accessibilityGrade =
             (if score \<ge> 90 then Grade_A else if score \<ge> 75 then Grade_B
              else if score \<ge> 60 then Grade_C else if score \<ge> 40 then Grade_D else Grade_F) \<rparr>)"

section \<open>The engine\<close>

text \<open>
  \<^verbatim>\<open>optimizeNetwork\<close> (lines 709 to 807) in its parts: \<open>nodeEdgeMap\<close> indexes the edges by
  node (lines 721 to 729); \<open>nodeResponseTime\<close> and \<open>withResponseTimes\<close> set the response
  time of each node (lines 731 to 746); \<open>averageOf\<close>, \<open>coverageOf\<close> and \<open>paretoOf\<close> are
  the unrounded \<^verbatim>\<open>averageResponseTime\<close>, \<^verbatim>\<open>coveragePercentage\<close> and the
  \<^verbatim>\<open>paretoScore\<close> (lines 754 to 764 and 777 to 779); \<open>computeMetrics\<close> builds the
  metrics (lines 751 to 792). The response times are finite, and \<^verbatim>\<open>(a, b) => a - b\<close>
  sorts them by value.
\<close>

record OptimizationResult =
  nodes :: "OptimizationNode list"
  edges :: "NetworkEdge list"
  hubFacilities :: "string list"
  coverageGaps :: "CoverageGap list"
  metrics :: OptimizationMetrics
  statisticalAnalysis :: StatisticalAnalysis
  criticalInsights :: CriticalInsights
  facilityDistanceMatrix :: "FacilityDistance list"

text \<open>The \<^verbatim>\<open>Map\<close> from a facility id to the indices of its edges; an absent key reads as no edge.\<close>

definition nodeEdgeMap :: "NetworkEdge list \<Rightarrow> (string \<Rightarrow> nat list)" where
  "nodeEdgeMap es =
     fold (\<lambda>i m. let m1 = m (e_from (es ! i) := m (e_from (es ! i)) @ [i])
                  in m1 (e_to (es ! i) := m1 (e_to (es ! i)) @ [i]))
          [0 ..< length es] (\<lambda>_. [])"

definition nodeResponseTime :: "NetworkEdge list \<Rightarrow> (string \<Rightarrow> nat list) \<Rightarrow> OptimizationNode \<Rightarrow> num" where
  "nodeResponseTime es m node =
     (let nodeEdgeIndices = m (facilityId node)
      in if length nodeEdgeIndices > 0
         then fold (\<lambda>idx minTime. if nlt (Fin (travelTime (es ! idx))) minTime
                                   then Fin (travelTime (es ! idx)) else minTime)
                   nodeEdgeIndices PInf
         else Fin (estimateTravelTime (nearestFacilityDistance node) False))"

definition withResponseTimes :: "NetworkEdge list \<Rightarrow> OptimizationNode list \<Rightarrow> OptimizationNode list" where
  "withResponseTimes es ns =
     map (\<lambda>node. node\<lparr> responseTimeMinutes := nodeResponseTime es (nodeEdgeMap es) node \<rparr>) ns"

text \<open>\<^verbatim>\<open>sortedTimes[k] || 0\<close>: an index out of range, 0 and \<^verbatim>\<open>NaN\<close> all give 0.\<close>

definition atOrZero :: "num list \<Rightarrow> nat \<Rightarrow> num" where
  "atOrZero xs k = (if k < length xs \<and> xs ! k \<noteq> Fin 0 \<and> xs ! k \<noteq> NaN then xs ! k else Fin 0)"

definition averageOf :: "num list \<Rightarrow> num" where
  "averageOf responseTimes =
     (if length responseTimes > 0
      then ndiv (fold (\<lambda>x s. nadd s x) responseTimes (Fin 0)) (Fin (real (length responseTimes)))
      else Fin 0)"

definition coverageOf :: "num list \<Rightarrow> num" where
  "coverageOf responseTimes =
     (let withinThreshold = length (filter (\<lambda>x. nle x (Fin WHO_ACCESS_THRESHOLD)) responseTimes)
      in if length responseTimes > 0
         then nmul (ndiv (Fin (real withinThreshold)) (Fin (real (length responseTimes)))) (Fin 100)
         else Fin 0)"

definition paretoOf :: "num \<Rightarrow> num \<Rightarrow> nat \<Rightarrow> num" where
  "paretoOf coverage average gapCount =
     (let timeScore = nmax (Fin 0) (nsub (Fin 100) average);
          equityScore = Fin (100 - real gapCount * 10)
      in nround (nadd (nadd (nmul coverage (Fin 0.4)) (nmul timeScore (Fin 0.4)))
                      (nmul equityScore (Fin 0.2))))"

definition computeMetrics ::
  "OptimizationNode list \<Rightarrow> NetworkEdge list \<Rightarrow> FacilityDistance list \<Rightarrow> CoverageGap list \<Rightarrow>
   num list \<Rightarrow> OptimizationMetrics" where
  "computeMetrics ns es distanceMatrix gaps responseTimes =
     (let sortedTimes = sort_key fin_val responseTimes;
          n = length responseTimes;
          average = averageOf responseTimes;
          median = atOrZero sortedTimes (nat \<lfloor>real n / 2\<rfloor>);
          p95 = atOrZero sortedTimes (nat \<lfloor>real n * 0.95\<rfloor>);
          coverage = coverageOf responseTimes;
          maxEdges = (real (length ns) * (real (length ns) - 1)) / 2;
          efficiency = (if maxEdges > 0 then (real (length es) / maxEdges) * 100 else 0);
          distances = filter (\<lambda>d. d < MAX_DISPLAY_DISTANCE) (map distanceKm distanceMatrix)
      in \<lparr> averageResponseTime = nround1 average,
           medianResponseTime = nround1 median,
           p95ResponseTime = nround1 p95,
           coveragePercentage = nround1 coverage,
           networkEfficiency = round1 efficiency,
           paretoScore = paretoOf coverage average (length gaps),
           totalFacilities = length ns,
           avgInterFacilityDistance =
             (if length distances > 0
              then of_int (round (fold (\<lambda>b a. a + b) distances 0 / real (length distances))) else 0),
           maxInterFacilityDistance =
             (if length distances > 0 then of_int (round (Max (set distances))) else 0),
           minInterFacilityDistance =
             (if length distances > 0 then of_int (round (Min (set distances))) else 0) \<rparr>)"

definition optimizeNetwork :: "CleanedFacility list \<Rightarrow> RegionStats list \<Rightarrow> OptimizationResult" where
  "optimizeNetwork facilities regionStats =
     (let g = buildNetworkGraph facilities;
          es = g_edges g;
          hubs = identifyHubFacilities (g_nodes g) es 5;
          ns = withResponseTimes es (g_nodes g);
          responseTimes = map responseTimeMinutes ns;
          gaps = detectCoverageGaps ns regionStats;
          m = computeMetrics ns es (g_distanceMatrix g) gaps responseTimes
      in \<lparr> nodes = ns,
           edges = es,
           hubFacilities = hubs,
           coverageGaps = gaps,
           metrics = m,
           statisticalAnalysis = calculateStatistics responseTimes,
           criticalInsights = generateCriticalInsights ns es gaps m,
           facilityDistanceMatrix = g_distanceMatrix g \<rparr>)"



section \<open>Notions used to state the properties\<close>

text \<open>
  The gap record of a region when the network has no node: the distance defaults to 100 km,
  which is 100 minutes at the rural speed.
\<close>

definition emptyNetworkGap :: "RegionStats \<Rightarrow> CoverageGap" where
  "emptyNetworkGap r =
     \<lparr> regionName = rs_name r,
       centroid = getRegionCentroid (rs_name r),
       gap_nearestFacilityDistance = 100,
       nearestFacilityTime = 100,
       populationEstimate = (if rs_totalFacilities r = 0 then 1 else rs_totalFacilities r) * 30000 + 50000,
       urgencyScore = 1,
       recommendedAction = ''Enhance existing facility capabilities'' \<rparr>"

text \<open>
  A node with the three fields that the engine writes after construction set back to their
  initial values: two node lists with equal cores come from the same facilities.
\<close>

definition core :: "OptimizationNode \<Rightarrow> OptimizationNode" where
  "core n = n\<lparr> responseTimeMinutes := Fin 0, nearestFacilityDistance := PInf,
              nearestFacilityName := ''None'' \<rparr>"

text \<open>
  \<open>edge_between ns i j e\<close>: the edge \<open>e\<close> joins the nodes \<open>i\<close> and \<open>j\<close> of \<open>ns\<close>,
  whose great-circle distance \<open>d\<close> is within the edge threshold; the edge stores \<open>d\<close>
  rounded to one decimal and the travel time of \<open>d\<close> at the speed of its tier.
\<close>

definition edge_between :: "OptimizationNode list \<Rightarrow> nat \<Rightarrow> nat \<Rightarrow> NetworkEdge \<Rightarrow> bool" where
  "edge_between ns i j e =
     (let d = haversineDistance (lat (ns ! i)) (lng (ns ! i)) (lat (ns ! j)) (lng (ns ! j))
      in i < length ns \<and> j < length ns \<and> i \<noteq> j \<and>
         e_from e = facilityId (ns ! i) \<and> e_to e = facilityId (ns ! j) \<and>
         d \<le> MAX_EDGE_DISTANCE \<and>
         distance e = round1 d \<and>
         travelTime e = round1 (d / (if d < 20 then TRAVEL_SPEEDS_urban else TRAVEL_SPEEDS_rural) * 60))"

text \<open>The invariant of the loop over the nodes in \<open>buildNetworkGraph\<close>.\<close>

definition graph_inv :: "OptimizationNode list \<Rightarrow> graph \<Rightarrow> bool" where
  "graph_inv ns g \<longleftrightarrow>
     map core (g_nodes g) = map core ns \<and>
     (\<forall>e\<in>set (g_edges g). \<exists>a b. edge_between ns a b e)"




text \<open>
  A node whose nearest-facility distance is finite and within the display maximum, and an entry
  of the distance matrix within the display maxima.
\<close>

definition capped_node :: "OptimizationNode \<Rightarrow> bool" where
  "capped_node n = (case nearestFacilityDistance n of Fin d \<Rightarrow> d \<le> MAX_DISPLAY_DISTANCE | _ \<Rightarrow> False)"

definition capped_entry :: "FacilityDistance \<Rightarrow> bool" where
  "capped_entry d = (distanceKm d \<le> MAX_DISPLAY_DISTANCE \<and> travelTimeMinutes d \<le> MAX_DISPLAY_TIME)"


section \<open>Example inputs\<close>

text \<open>
  Two clinics of the Ashanti region on the same meridian, 0.1795 degrees of latitude apart:
  their great-circle distance is about 19.96 km. \<open>nA\<close> and \<open>nB\<close> are their nodes as
  constructed, \<open>eAB\<close> the edge and \<open>graphAB\<close> the graph that \<open>buildNetworkGraph\<close> makes
  of them.
\<close>

definition fA :: CleanedFacility where
  "fA = \<lparr> f_id = ''A'', f_name = ''Clinic A'', f_validCoordinates = True,
          f_coordinates = Some (6, - 1), f_stateOrRegion = Some ''Ashanti'',
          f_capabilities = [], f_dataQualityScore = Some 50 \<rparr>"

definition fB :: CleanedFacility where
  "fB = \<lparr> f_id = ''B'', f_name = ''Clinic B'', f_validCoordinates = True,
          f_coordinates = Some (6.1795, - 1), f_stateOrRegion = Some ''Ashanti'',
          f_capabilities = [], f_dataQualityScore = Some 50 \<rparr>"

definition nA :: OptimizationNode where "nA = \<lparr> facilityId = ''A'', name = ''Clinic A'', lat = 6, lng = - 1, region = ''Ashanti'',
     capabilities = [], qualityScore = 50, responseTimeMinutes = Fin 0,
     nearestFacilityDistance = PInf, nearestFacilityName = ''None'' \<rparr>"

definition nB :: OptimizationNode where "nB = \<lparr> facilityId = ''B'', name = ''Clinic B'', lat = 6.1795, lng = - 1, region = ''Ashanti'',
     capabilities = [], qualityScore = 50, responseTimeMinutes = Fin 0,
     nearestFacilityDistance = PInf, nearestFacilityName = ''None'' \<rparr>"

definition eAB :: NetworkEdge where
  "eAB = \<lparr> e_from = ''A'', e_to = ''B'', e_fromName = ''Clinic A'', e_toName = ''Clinic B'',
           distance = 20, travelTime = 39.9, weight = 39.9 \<rparr>"

definition graphAB :: graph where
  "graphAB =
   \<lparr> g_nodes = [nA\<lparr> nearestFacilityDistance := Fin 20, nearestFacilityName := ''Clinic B'' \<rparr>,
                nB\<lparr> nearestFacilityDistance := Fin 20, nearestFacilityName := ''Clinic A'' \<rparr>],
     g_edges = [eAB], g_edgeSet = {(0, 1)},
     g_distanceMatrix =
       [\<lparr> d_facilityId = ''A'', d_facilityName = ''Clinic A'',
          d_nearestFacilityId = ''B'', d_nearestFacilityName = ''Clinic B'',
          distanceKm = 20, travelTimeMinutes = 20 \<rparr>,
        \<lparr> d_facilityId = ''B'', d_facilityName = ''Clinic B'',
          d_nearestFacilityId = ''A'', d_nearestFacilityName = ''Clinic A'',
          distanceKm = 20, travelTimeMinutes = 20 \<rparr>] \<rparr>"

text \<open>
  A single facility with valid coordinates far from the country (latitude 51.5 on the meridian
  of the Ashanti centroid) and without region label, its node in the result, the region summary
  of Ashanti, and the gap that \<open>detectCoverageGaps\<close> emits for that region.
\<close>

definition fFar :: CleanedFacility where
  "fFar = \<lparr> f_id = ''X'', f_name = ''Stray Clinic'', f_validCoordinates = True,
            f_coordinates = Some (51.5, - 1.6244), f_stateOrRegion = None,
            f_capabilities = [], f_dataQualityScore = None \<rparr>"

definition nFar :: OptimizationNode where
  "nFar = \<lparr> facilityId = ''X'', name = ''Stray Clinic'', lat = 51.5, lng = - 1.6244,
            region = ''Unknown'', capabilities = [], qualityScore = 50,
            responseTimeMinutes = Fin 2400, nearestFacilityDistance = Fin 2400,
            nearestFacilityName = ''None'' \<rparr>"

definition rAshanti :: RegionStats where
  "rAshanti = \<lparr> rs_name = ''Ashanti'', rs_totalFacilities = 0 \<rparr>"

definition gapFar :: CoverageGap where
  "gapFar = \<lparr> regionName = ''Ashanti'', centroid = Some (6.6885, - 1.6244),
      gap_nearestFacilityDistance = 4982.8, nearestFacilityTime = 2400,
      populationEstimate = 80000, urgencyScore = 1,
      recommendedAction = ''Deploy mobile health unit immediately'' \<rparr>"




section \<open>Properties of the statistics\<close>

lemma fold_nadd_constant:
  "set xs \<subseteq> {Fin v} \<Longrightarrow>
   fold (\<lambda>x s. nadd s x) xs (Fin a) = Fin (a + real (length xs) * v)"
  by (induction xs arbitrary: a) (simp_all add: algebra_simps)

lemma fold_sqdiff_constant:
  "set xs \<subseteq> {Fin v} \<Longrightarrow>
   fold (\<lambda>x s. nadd s (nmul (nsub x (Fin v)) (nsub x (Fin v)))) xs (Fin 0) = Fin 0"
  by (induction xs) (simp_all add: nsub_def)

text \<open>
  A sample of at least two equal finite values has variance 0: the standard error and the
  effect size are 0.
\<close>

lemma calculateStatistics_constant_sample:
  assumes "2 \<le> length xs" and eq: "set xs \<subseteq> {Fin v}"
  shows "standardError (calculateStatistics xs) = Fin 0"
    and "effectSize (calculateStatistics xs) = Fin 0"
proof -
  from assms have k: "xs \<noteq> []" "real (length xs) \<noteq> 0" "real (length xs) - 1 \<noteq> 0"
    "\<not> sqrt (real (length xs)) = 0" "\<not> real (length xs) < 0"
    by auto
  have mean: "ndiv (fold (\<lambda>x s. nadd s x) xs (Fin 0)) (Fin (real (length xs))) = Fin v"
    using k by (simp add: fold_nadd_constant [OF eq])
  show "standardError (calculateStatistics xs) = Fin 0"
    using k by (simp add: calculateStatistics_def Let_def mean fold_sqdiff_constant [OF eq] ngt_def)
  show "effectSize (calculateStatistics xs) = Fin 0"
    using k by (simp add: calculateStatistics_def Let_def mean fold_sqdiff_constant [OF eq] ngt_def)
qed

lemma calculateStatistics_forty_times_ninety:
  "standardError (calculateStatistics (replicate 40 (Fin 90))) = Fin 0 \<and>
   effectSize (calculateStatistics (replicate 40 (Fin 90))) = Fin 0"
  using calculateStatistics_constant_sample [of "replicate 40 (Fin 90)" 90] by simp


section \<open>The great-circle distance\<close>

text \<open>The number under the two square roots of \<open>haversineDistance\<close> lies between 0 and 1.\<close>

lemma radicand_arith:
  fixes S T Cc K :: real
  assumes "0 \<le> S" "S \<le> 1" "S + Cc = (1 + K) / 2" "- 1 \<le> K" "K \<le> 1"
    and "(0 \<le> T \<and> T \<le> Cc) \<or> (Cc \<le> T \<and> T \<le> 0)"
  shows "0 \<le> S + T \<and> S + T \<le> 1"
  using assms by argo

lemma sin_square_bounds: "0 \<le> sin x * sin x \<and> sin x * sin x \<le> 1" for x :: real
proof -
  have "cos x * cos x + sin x * sin x = 1" by simp
  moreover have "0 \<le> cos x * cos x" "0 \<le> sin x * sin x" by (rule zero_le_square)+
  ultimately show ?thesis by linarith
qed

lemma radicand_bounds:
  fixes p q l :: real
  shows "0 \<le> sin ((q - p) * 0.5) * sin ((q - p) * 0.5) + cos p * cos q * sin (l * 0.5) * sin (l * 0.5) \<and>
         sin ((q - p) * 0.5) * sin ((q - p) * 0.5) + cos p * cos q * sin (l * 0.5) * sin (l * 0.5) \<le> 1"
proof -
  let ?s = "sin ((q - p) * 0.5) * sin ((q - p) * 0.5)"
  let ?t = "sin (l * 0.5) * sin (l * 0.5)"
  have t: "0 \<le> ?t" "?t \<le> 1" using sin_square_bounds [of "l * 0.5"] by blast+
  have s: "0 \<le> ?s" "?s \<le> 1" using sin_square_bounds [of "(q - p) * 0.5"] by blast+
  define w where "w = (q - p) * 0.5"
  have w2: "2 * w = q - p" by (simp add: w_def)
  have "cos (2 * w) = 1 - 2 * (sin w)\<^sup>2" by (rule cos_double_sin)
  then have "cos (q - p) = 1 - 2 * (sin w * sin w)" unfolding w2 power2_eq_square .
  then have "sin w * sin w = (1 - cos q * cos p - sin q * sin p) / 2"
    unfolding cos_diff by (simp add: field_simps)
  then have s_eq: "?s = (1 - cos q * cos p - sin q * sin p) / 2"
    unfolding w_def .
  have sc: "?s + cos p * cos q = (1 + cos (p + q)) / 2"
    unfolding s_eq cos_add by (simp add: field_simps)
  have "(0 \<le> (cos p * cos q) * ?t \<and> (cos p * cos q) * ?t \<le> cos p * cos q) \<or>
        (cos p * cos q \<le> (cos p * cos q) * ?t \<and> (cos p * cos q) * ?t \<le> 0)"
  proof (cases "0 \<le> cos p * cos q")
    case True
    then have "0 \<le> (cos p * cos q) * ?t" using t(1) by (rule mult_nonneg_nonneg)
    moreover have "(cos p * cos q) * ?t \<le> (cos p * cos q) * 1"
      using t(2) True by (rule mult_left_mono)
    ultimately show ?thesis by simp
  next
    case False
    then have neg: "cos p * cos q \<le> 0" by simp
    then have "(cos p * cos q) * ?t \<le> 0" using t(1) by (rule mult_nonpos_nonneg)
    moreover have "(cos p * cos q) * 1 \<le> (cos p * cos q) * ?t"
      using t(2) neg by (rule mult_left_mono_neg)
    ultimately show ?thesis by simp
  qed
  with s sc have "0 \<le> ?s + (cos p * cos q) * ?t \<and> ?s + (cos p * cos q) * ?t \<le> 1"
    by (intro radicand_arith [where Cc = "cos p * cos q" and K = "cos (p + q)"]) simp_all
  then show ?thesis by (simp only: mult.assoc)
qed


lemma haversine_radicand:
  fixes lat1 lng1 lat2 lng2 :: real
  defines "dLat \<equiv> (lat2 - lat1) * 0.017453292519943295"
    and "dLng \<equiv> (lng2 - lng1) * 0.017453292519943295"
  defines "a \<equiv> sin (dLat * 0.5) * sin (dLat * 0.5) +
              cos (lat1 * 0.017453292519943295) * cos (lat2 * 0.017453292519943295) *
              sin (dLng * 0.5) * sin (dLng * 0.5)"
  shows "0 \<le> a \<and> a \<le> 1"
proof -
  have "dLat = lat2 * 0.017453292519943295 - lat1 * 0.017453292519943295"
    unfolding dLat_def by (rule left_diff_distrib)
  then show ?thesis
    unfolding a_def
    using radicand_bounds [of "lat2 * 0.017453292519943295" "lat1 * 0.017453292519943295" dLng]
    by simp
qed

text \<open>
  Between two points of the same meridian the distance is the difference of latitude in
  radians times the radius.
\<close>

lemma arctan_tan_abs:
  assumes "\<bar>t\<bar> < pi / 2"
  shows "atan2 (sqrt (sin t * sin t)) (sqrt (1 - sin t * sin t)) = \<bar>t\<bar>"
proof -
  have c: "cos t > 0" using assms by (intro cos_gt_zero_pi) auto
  have "1 - sin t * sin t = cos t * cos t"
    using sin_cos_squared_add3 [of t] by (simp add: algebra_simps)
  then have sq: "sqrt (1 - sin t * sin t) = cos t" using c by simp
  have s: "sqrt (sin t * sin t) = \<bar>sin t\<bar>" by simp
  have "\<bar>sin t\<bar> = sin \<bar>t\<bar>"
  proof (cases "0 \<le> t")
    case True
    then have "0 \<le> sin t" using assms by (intro sin_ge_zero) auto
    with True show ?thesis by simp
  next
    case False
    then have "0 \<le> sin (- t)" using assms by (intro sin_ge_zero) auto
    with False show ?thesis by simp
  qed
  moreover have "cos t = cos \<bar>t\<bar>" by (cases "0 \<le> t") simp_all
  ultimately have "\<bar>sin t\<bar> / cos t = tan \<bar>t\<bar>" by (simp add: tan_def)
  moreover have "arctan (tan \<bar>t\<bar>) = \<bar>t\<bar>" using assms by (intro arctan_tan) auto
  ultimately show ?thesis using c by (simp add: atan2_def sq s)
qed

lemma haversine_meridian:
  assumes "\<bar>lat2 - lat1\<bar> \<le> 114"
  shows "haversineDistance lat1 lng0 lat2 lng0 = 6371 * (\<bar>lat2 - lat1\<bar> * 0.017453292519943295)"
proof -
  let ?t = "(lat2 - lat1) * 0.017453292519943295 * 0.5"
  have am: "\<bar>x * a * b\<bar> = \<bar>x\<bar> * a * b" if "0 \<le> a" "0 \<le> b" for x a b :: real
    using that by (simp add: abs_mult)
  have abs_t: "\<bar>?t\<bar> = \<bar>lat2 - lat1\<bar> * 0.017453292519943295 * 0.5" by (rule am) simp_all
  note abs_t
  also have "\<dots> \<le> 114 * 0.017453292519943295 * 0.5" using assms by simp
  also have "\<dots> < 1" by simp
  also have "\<dots> \<le> pi / 2" using pi_ge_two by simp
  finally have t: "\<bar>?t\<bar> < pi / 2" .
  have "haversineDistance lat1 lng0 lat2 lng0 =
        6371 * 2 * atan2 (sqrt (sin ?t * sin ?t)) (sqrt (1 - sin ?t * sin ?t))"
    by (simp add: haversineDistance_def Let_def)
  also have "\<dots> = 6371 * 2 * \<bar>?t\<bar>" by (simp only: arctan_tan_abs [OF t])
  also have "\<dots> = 6371 * 2 * (\<bar>lat2 - lat1\<bar> * 0.017453292519943295 * 0.5)"
    by (simp only: abs_t)
  also have "\<dots> = 6371 * (\<bar>lat2 - lat1\<bar> * 0.017453292519943295)" by simp
  finally show ?thesis .
qed



section \<open>Properties of the coverage gaps\<close>

lemma sort_key_constant:
  "\<forall>x\<in>set xs. f x = c \<Longrightarrow> sort_key f xs = xs"
proof (induction xs)
  case Nil
  then show ?case by simp
next
  case (Cons x xs)
  then have "sort_key f xs = xs" by simp
  moreover have "insort_key f x xs = x # xs"
    using Cons.prems by (intro insort_is_Cons) simp
  ultimately show ?case by (simp add: sort_key_def)
qed

lemma round1_tenth: "round1 (of_int k / 10) = of_int k / 10"
  by (simp add: round1_def)

lemma estimateTravelTime_tenth: "\<exists>k::int. estimateTravelTime d u = of_int k / 10"
proof (cases d)
  case (Fin x)
  let ?r = "round ((min x MAX_DISPLAY_DISTANCE / (if u then TRAVEL_SPEEDS_urban else TRAVEL_SPEEDS_rural)) * 60 * 10)"
  have e: "estimateTravelTime d u = min (of_int ?r / 10) 2880"
    using Fin by (simp add: estimateTravelTime_def Let_def)
  show ?thesis
  proof (cases "of_int ?r / 10 \<le> (2880::real)")
    case True
    then have "estimateTravelTime d u = of_int ?r / 10" using e by simp
    then show ?thesis by blast
  next
    case False
    then have "estimateTravelTime d u = of_int 28800 / 10" using e by simp
    then show ?thesis by blast
  qed
next
  case PInf
  then have "estimateTravelTime d u = of_int 28800 / 10" by (simp add: estimateTravelTime_def)
  then show ?thesis by blast
next
  case NInf
  then have "estimateTravelTime d u = of_int 28800 / 10" by (simp add: estimateTravelTime_def)
  then show ?thesis by blast
next
  case NaN
  then have "estimateTravelTime d u = of_int 28800 / 10" by (simp add: estimateTravelTime_def)
  then show ?thesis by blast
qed

lemma round1_estimateTravelTime: "round1 (estimateTravelTime d u) = estimateTravelTime d u"
proof -
  obtain k :: int where "estimateTravelTime d u = of_int k / 10"
    using estimateTravelTime_tenth by blast
  then show ?thesis by (simp only: round1_tenth)
qed

lemma regionAccess_time:
  "regionAccess ns fs rname = (ad, t, c) \<Longrightarrow> \<exists>d u. t = estimateTravelTime d u"
  by (auto simp: regionAccess_def Let_def split: if_splits)

lemma regionGap_member:
  assumes "g \<in> set (regionGap ns m r)"
  shows "urgencyScore g = 1" and "nearestFacilityTime g > WHO_ACCESS_THRESHOLD"
    and "regionName g = rs_name r"
proof -
  obtain ad t c where ra: "regionAccess ns (regionFacilitiesOf m (rs_name r)) (rs_name r) = (ad, t, c)"
    by (cases "regionAccess ns (regionFacilitiesOf m (rs_name r)) (rs_name r)") auto
  from assms ra have t: "t > 90" and g: "nearestFacilityTime g = round1 t"
    "urgencyScore g = min (t / 90) 1" "regionName g = rs_name r"
    by (auto simp: regionGap_def split: if_splits)
  from regionAccess_time [OF ra] have "round1 t = t"
    by (auto simp: round1_estimateTravelTime)
  with t g show "urgencyScore g = 1" "nearestFacilityTime g > WHO_ACCESS_THRESHOLD"
    "regionName g = rs_name r" by auto
qed

lemma collectGaps_member:
  assumes "g \<in> set (collectGaps ns rs)"
  shows "urgencyScore g = 1 \<and> nearestFacilityTime g > WHO_ACCESS_THRESHOLD"
  using assms regionGap_member by (auto simp: collectGaps_def)

lemma detectCoverageGaps_unsorted: "detectCoverageGaps ns rs = collectGaps ns rs"
  unfolding detectCoverageGaps_def
  by (rule sort_key_constant [where c = "- 1"]) (simp add: collectGaps_member)

section \<open>The empty facility list\<close>

lemma buildNetworkGraph_empty:
  "buildNetworkGraph [] = \<lparr> g_nodes = [], g_edges = [], g_edgeSet = {}, g_distanceMatrix = [] \<rparr>"
  by (simp add: buildNetworkGraph_def buildNodes_def)

lemma estimateTravelTime_100: "estimateTravelTime (Fin 100) False = 100"
  by (simp add: estimateTravelTime_def)

lemma regionAccess_no_nodes:
  "regionAccess [] [] rname = (100, 100, getRegionCentroid rname)"
  by (simp add: regionAccess_def estimateTravelTime_100)

lemma regionFacilitiesOf_no_nodes: "regionFacilitiesOf [] rname = []"
  by (simp add: regionFacilitiesOf_def)

lemma regionGap_no_nodes: "regionGap [] [] r = [emptyNetworkGap r]"
  by (simp add: regionGap_def regionAccess_no_nodes regionFacilitiesOf_no_nodes round1_def emptyNetworkGap_def)

lemma collectGaps_no_nodes: "collectGaps [] rs = map emptyNetworkGap rs"
  by (induction rs) (simp_all add: collectGaps_def regionNodeMap_def regionGap_no_nodes)

lemma detectCoverageGaps_no_nodes: "detectCoverageGaps [] rs = map emptyNetworkGap rs"
  by (simp add: detectCoverageGaps_unsorted collectGaps_no_nodes)

lemma optimizeNetwork_empty_parts:
  "nodes (optimizeNetwork [] rs) = []"
  "edges (optimizeNetwork [] rs) = []"
  "hubFacilities (optimizeNetwork [] rs) = []"
  "coverageGaps (optimizeNetwork [] rs) = map emptyNetworkGap rs"
  by (simp_all add: optimizeNetwork_def Let_def buildNetworkGraph_empty withResponseTimes_def
      identifyHubFacilities_def detectCoverageGaps_no_nodes)

text \<open>
  Claim C10. Every coverage gap that \<open>detectCoverageGaps\<close> emits has urgency score exactly 1:
  a gap is emitted only when its average travel time exceeds 90 minutes. So the sort by
  descending urgency keeps the order of the region summaries, the filter \<open>urgencyScore \<ge> 0.5\<close> of the
  recommended new facilities excludes no gap, and neither does the whole filter condition: the
  recommended facilities are those of the first five gaps.
\<close>

lemma collectGaps_region_order:
  "subseq (map regionName (collectGaps ns rs)) (map rs_name rs)"
proof -
  have one: "map regionName (regionGap ns m r) = [] \<or> map regionName (regionGap ns m r) = [rs_name r]"
    for m r
    by (cases "regionAccess ns (regionFacilitiesOf m (rs_name r)) (rs_name r)")
       (simp add: regionGap_def)
  have "subseq (map regionName (concat (map (regionGap ns m) rs))) (map rs_name rs)" for m
  proof (induction rs)
    case Nil
    then show ?case by simp
  next
    case (Cons r rs)
    from one [of m r] show ?case
    proof
      assume "map regionName (regionGap ns m r) = []"
      with Cons show ?thesis by (simp add: list_emb_Cons)
    next
      assume "map regionName (regionGap ns m r) = [rs_name r]"
      with Cons show ?thesis by simp
    qed
  qed
  then show ?thesis by (simp add: collectGaps_def)
qed

theorem coverage_gap_urgency_is_one:
  "(\<forall>g \<in> set (detectCoverageGaps ns rs). urgencyScore g = 1) \<and>
   detectCoverageGaps ns rs = collectGaps ns rs \<and>
   subseq (map regionName (detectCoverageGaps ns rs)) (map rs_name rs) \<and>
   filter (\<lambda>gap. urgencyScore gap \<ge> 0.5) (detectCoverageGaps ns rs) = detectCoverageGaps ns rs \<and>
   recommendedGaps (detectCoverageGaps ns rs) = take 5 (detectCoverageGaps ns rs)"
proof -
  have m: "\<forall>g \<in> set (detectCoverageGaps ns rs). urgencyScore g = 1 \<and> nearestFacilityTime g > 90"
    using collectGaps_member by (simp add: detectCoverageGaps_unsorted)
  then have "filter (\<lambda>gap. urgencyScore gap \<ge> 0.5) (detectCoverageGaps ns rs) = detectCoverageGaps ns rs"
    by (intro filter_True) auto
  moreover from m have "filter (\<lambda>gap. urgencyScore gap \<ge> 0.5 \<and> nearestFacilityTime gap > 90) (detectCoverageGaps ns rs) = detectCoverageGaps ns rs"
    by (intro filter_True) auto
  ultimately show ?thesis using m collectGaps_region_order [of ns rs]
    by (simp add: detectCoverageGaps_unsorted recommendedGaps_def)
qed

theorem coverage_gap_urgency_is_one_witness:
  "detectCoverageGaps [] [\<lparr> rs_name = ''Ashanti'', rs_totalFacilities = 12 \<rparr>] \<noteq> [] \<and>
   map urgencyScore (detectCoverageGaps [] [\<lparr> rs_name = ''Ashanti'', rs_totalFacilities = 12 \<rparr>]) = [1]"
proof -
  let ?gs = "detectCoverageGaps [] [\<lparr> rs_name = ''Ashanti'', rs_totalFacilities = 12 \<rparr>]"
  obtain g where g: "?gs = [g]" by (simp add: detectCoverageGaps_no_nodes)
  from coverage_gap_urgency_is_one [of "[]" "[\<lparr> rs_name = ''Ashanti'', rs_totalFacilities = 12 \<rparr>]"]
  have "\<forall>g \<in> set ?gs. urgencyScore g = 1" by blast
  with g show ?thesis by simp
qed

text \<open>
  Claim C6. For an empty facility list, \<open>optimizeNetwork\<close> returns no node, no edge and no
  hub facility, and every region of the region summaries is emitted as a coverage gap, in the
  order of the list: the travel time of each, from its gazetteer or default centroid with no
  facility present, is 100 minutes, above the 90-minute standard.
\<close>

theorem empty_facility_list:
  "nodes (optimizeNetwork [] rs) = [] \<and>
   edges (optimizeNetwork [] rs) = [] \<and>
   hubFacilities (optimizeNetwork [] rs) = [] \<and>
   map regionName (coverageGaps (optimizeNetwork [] rs)) = map rs_name rs \<and>
   (\<forall>g \<in> set (coverageGaps (optimizeNetwork [] rs)).
      centroid g = getRegionCentroid (regionName g) \<and>
      nearestFacilityTime g = 100 \<and> nearestFacilityTime g > WHO_ACCESS_THRESHOLD)"
  by (auto simp: optimizeNetwork_empty_parts emptyNetworkGap_def comp_def)

theorem empty_facility_list_witness:
  "map regionName (coverageGaps (optimizeNetwork [] [\<lparr> rs_name = ''Ashanti'', rs_totalFacilities = 12 \<rparr>]))
     = [''Ashanti''] \<and>
   map nearestFacilityTime
     (coverageGaps (optimizeNetwork [] [\<lparr> rs_name = ''Ashanti'', rs_totalFacilities = 12 \<rparr>])) = [100]"
proof -
  let ?r = "optimizeNetwork [] [\<lparr> rs_name = ''Ashanti'', rs_totalFacilities = 12 \<rparr>]"
  from empty_facility_list [of "[\<lparr> rs_name = ''Ashanti'', rs_totalFacilities = 12 \<rparr>]"]
  have n: "map regionName (coverageGaps ?r) = [''Ashanti'']"
    and t: "\<forall>g \<in> set (coverageGaps ?r). nearestFacilityTime g = 100"
    by simp_all
  from n obtain g where "coverageGaps ?r = [g]" by auto
  with n t show ?thesis by simp
qed

section \<open>Properties of the metrics\<close>





lemma nodes_optimizeNetwork: 
  "nodes (optimizeNetwork fs rs) = withResponseTimes (g_edges (buildNetworkGraph fs)) (g_nodes (buildNetworkGraph fs))"
  by (simp add: optimizeNetwork_def Let_def)


lemma isFinite_iff: "isFinite x \<longleftrightarrow> x = Fin (fin_val x)"
  by (cases x) auto









section \<open>Properties of the graph\<close>

lemma core_fields [simp]:
  "facilityId (core n) = facilityId n" "name (core n) = name n" "lat (core n) = lat n"
  "lng (core n) = lng n" "region (core n) = region n" "qualityScore (core n) = qualityScore n"
  "capabilities (core n) = capabilities n"
  by (simp_all add: core_def)

lemma core_update [simp]:
  "core (n\<lparr> nearestFacilityDistance := d, nearestFacilityName := nm \<rparr>) = core n"
  "core (n\<lparr> responseTimeMinutes := t \<rparr>) = core n"
  by (simp_all add: core_def)

lemma core_eqD:
  assumes "core a = core b"
  shows "facilityId a = facilityId b" "name a = name b" "lat a = lat b" "lng a = lng b"
    "region a = region b" "qualityScore a = qualityScore b"
proof -
  have "facilityId (core a) = facilityId (core b)" "name (core a) = name (core b)"
    "lat (core a) = lat (core b)" "lng (core a) = lng (core b)"
    "region (core a) = region (core b)" "qualityScore (core a) = qualityScore (core b)"
    using assms by simp_all
  then show "facilityId a = facilityId b" "name a = name b" "lat a = lat b" "lng a = lng b"
    "region a = region b" "qualityScore a = qualityScore b" by simp_all
qed

lemma map_core_nth:
  "map core xs = map core ys \<Longrightarrow> k < length ys \<Longrightarrow> core (xs ! k) = core (ys ! k)"
  by (metis length_map nth_map)

lemma core_buildNodes: "map core (buildNodes fs) = buildNodes fs"
  by (induction fs) (auto simp: buildNodes_def core_def split: option.splits)

lemma round1_le: "d \<le> of_int k / 10 \<Longrightarrow> round1 d \<le> of_int k / 10"
proof -
  assume "d \<le> of_int k / 10"
  then have "d * 10 \<le> of_int k" by simp
  then have "round (d * 10) \<le> round (of_int k :: real)" by (rule round_mono)
  then have "round (d * 10) \<le> k" by simp
  then have "(of_int (round (d * 10)) :: real) \<le> of_int k" by (simp only: of_int_le_iff)
  then show ?thesis by (simp add: round1_def)
qed

lemma formatDistance_short: "d \<le> 300 \<Longrightarrow> formatDistance (Fin d) = round1 d \<and> round1 d \<le> 300"
  using round1_le [of d 3000] by (simp add: formatDistance_def)

lemma estimateTravelTime_short:
  assumes "d \<le> 300"
  shows "estimateTravelTime (Fin d) (d < 20) = round1 (d / (if d < 20 then 30 else 60) * 60)"
proof -
  let ?v = "d / (if d < 20 then 30 else 60) * 60"
  have "?v \<le> of_int 6000 / 10" using assms by (auto simp: field_simps)
  then have "round1 ?v \<le> of_int 6000 / 10" by (rule round1_le)
  then have "round1 ?v \<le> 2880" by simp
  moreover have "estimateTravelTime (Fin d) (d < 20) = min (round1 ?v) 2880"
    using assms by (simp add: estimateTravelTime_def round1_def Let_def)
  ultimately show ?thesis by simp
qed

lemma SpatialGrid_fold_bound:
  assumes "\<And>c. set (grid c) \<subseteq> S" and "set is \<subseteq> S"
  shows "set (fold (\<lambda>i grid. let key = getCellKey (lat (ns ! i)) (lng (ns ! i))
                         in grid (key := grid key @ [i])) is grid c) \<subseteq> S"
  using assms
proof (induction "is" arbitrary: grid)
  case Nil
  then show ?case by simp
next
  case (Cons i "is")
  let ?key = "getCellKey (lat (ns ! i)) (lng (ns ! i))"
  have "set ((grid (?key := grid ?key @ [i])) c') \<subseteq> S" for c'
    using Cons.prems(1) [of c'] Cons.prems(1) [of ?key] Cons.prems(2) by (cases "c' = ?key") simp_all
  moreover have "set is \<subseteq> S" using Cons.prems(2) by simp
  ultimately have "set (fold (\<lambda>i grid. let key = getCellKey (lat (ns ! i)) (lng (ns ! i))
                         in grid (key := grid key @ [i])) is (grid (?key := grid ?key @ [i])) c) \<subseteq> S"
    by (rule Cons.IH)
  then show ?case by (simp only: fold_simps o_apply Let_def)
qed

lemma SpatialGrid_bound: "j \<in> set (SpatialGrid ns c) \<Longrightarrow> j < length ns"
proof -
  have "set (SpatialGrid ns c) \<subseteq> {0 ..< length ns}"
    unfolding SpatialGrid_def by (rule SpatialGrid_fold_bound) auto
  then show "j \<in> set (SpatialGrid ns c) \<Longrightarrow> j < length ns" by auto
qed

lemma getNearbyIndices_bound:
  "j \<in> set (getNearbyIndices (SpatialGrid ns) la lo r) \<Longrightarrow> j < length ns"
  by (auto simp: getNearbyIndices_def Let_def dest: SpatialGrid_bound)

lemma trackNearest_edges [simp]:
  "s_edges (trackNearest other d s) = s_edges s"
  "s_edgeSet (trackNearest other d s) = s_edgeSet s"
  by (simp_all add: trackNearest_def)

lemma visitCandidate_edges:
  assumes "map core cur = map core ns" and "i < length ns" and "j < length ns"
  shows "s_edges (visitCandidate cur i j s) = s_edges s \<or>
         (\<exists>e. s_edges (visitCandidate cur i j s) = s_edges s @ [e] \<and> edge_between ns i j e)"
proof -
  have fi: "facilityId (cur ! i) = facilityId (ns ! i)" "lat (cur ! i) = lat (ns ! i)"
    "lng (cur ! i) = lng (ns ! i)"
    using core_eqD [OF map_core_nth [OF assms(1) assms(2)]] by simp_all
  have fj: "facilityId (cur ! j) = facilityId (ns ! j)" "lat (cur ! j) = lat (ns ! j)"
    "lng (cur ! j) = lng (ns ! j)"
    using core_eqD [OF map_core_nth [OF assms(1) assms(3)]] by simp_all
  let ?d = "haversineDistance (lat (ns ! i)) (lng (ns ! i)) (lat (ns ! j)) (lng (ns ! j))"
  show ?thesis
  proof (cases "i \<noteq> j \<and> ?d \<le> 300 \<and>
      (if i < j then (i, j) else (j, i)) \<notin> s_edgeSet s")
    case True
    then have "formatDistance (Fin ?d) = round1 ?d"
      and "estimateTravelTime (Fin ?d) (?d < 20) = round1 (?d / (if ?d < 20 then 30 else 60) * 60)"
      using formatDistance_short [of ?d] estimateTravelTime_short [of ?d] by simp_all
    with True assms(2,3) show ?thesis
      by (simp add: visitCandidate_def Let_def fi fj edge_between_def)
  next
    case False
    then have "s_edges (visitCandidate cur i j s) = s_edges s"
      by (auto simp: visitCandidate_def Let_def fi fj)
    then show ?thesis ..
  qed
qed

lemma fold_visitCandidate_edges:
  assumes "map core cur = map core ns" and "i < length ns"
    and "\<forall>j\<in>set js. j < length ns"
    and "\<forall>e\<in>set (s_edges s). \<exists>a b. edge_between ns a b e"
  shows "\<forall>e\<in>set (s_edges (fold (visitCandidate cur i) js s)). \<exists>a b. edge_between ns a b e"
  using assms(3,4)
proof (induction js arbitrary: s)
  case Nil
  then show ?case by simp
next
  case (Cons j js)
  have "\<forall>e\<in>set (s_edges (visitCandidate cur i j s)). \<exists>a b. edge_between ns a b e"
    using visitCandidate_edges [OF assms(1,2), of j s] Cons.prems by fastforce
  with Cons show ?case by simp
qed

lemma fullScan_edges [simp]: "s_edges (fullScan cur i s) = s_edges s"
proof -
  have "s_edges (fold (\<lambda>j s. if i = j then s
                  else trackNearest (cur ! j)
                         (haversineDistance (lat (cur ! i)) (lng (cur ! i))
                                            (lat (cur ! j)) (lng (cur ! j))) s) js s) = s_edges s" for js
    by (induction js arbitrary: s) simp_all
  then show ?thesis by (simp add: fullScan_def)
qed

lemma processNode_inv:
  assumes "graph_inv ns g" and "i < length ns"
  shows "graph_inv ns (processNode (SpatialGrid ns) i g)"
proof -
  from assms have c: "map core (g_nodes g) = map core ns"
    and e: "\<forall>e\<in>set (g_edges g). \<exists>a b. edge_between ns a b e"
    by (simp_all add: graph_inv_def)
  from c have len: "length (g_nodes g) = length ns" by (metis length_map)
  let ?near = "getNearbyIndices (SpatialGrid ns) (lat (g_nodes g ! i)) (lng (g_nodes g ! i)) 4"
  let ?s0 = "\<lparr> minDistance = PInf, nearestName = ''None'', nearestId = [],
                 s_edges = g_edges g, s_edgeSet = g_edgeSet g \<rparr>"
  have s1: "\<forall>e\<in>set (s_edges (fold (visitCandidate (g_nodes g) i) ?near ?s0)).
              \<exists>a b. edge_between ns a b e"
    by (rule fold_visitCandidate_edges [OF c assms(2)])
       (use e getNearbyIndices_bound in auto)
  have "map core ((g_nodes g)[i := (g_nodes g ! i)\<lparr> nearestFacilityDistance := d,
           nearestFacilityName := nm \<rparr>]) = map core ns" for d nm
    using c assms(2) len map_core_nth [OF c assms(2)]
    by (simp add: map_update list_update_same_conv)
  with s1 show ?thesis
    by (simp add: graph_inv_def processNode_def Let_def)
qed

lemma fold_processNode_inv:
  "graph_inv ns g \<Longrightarrow> \<forall>i\<in>set is. i < length ns \<Longrightarrow>
   graph_inv ns (fold (processNode (SpatialGrid ns)) is g)"
  by (induction "is" arbitrary: g) (simp_all add: processNode_inv)

lemma buildNetworkGraph_inv: "graph_inv (buildNodes fs) (buildNetworkGraph fs)"
proof -
  have "graph_inv (buildNodes fs)
          \<lparr> g_nodes = buildNodes fs, g_edges = [], g_edgeSet = {}, g_distanceMatrix = [] \<rparr>"
    by (simp add: graph_inv_def)
  then have "graph_inv (buildNodes fs)
          (fold (processNode (SpatialGrid (buildNodes fs))) [0 ..< length (buildNodes fs)]
             \<lparr> g_nodes = buildNodes fs, g_edges = [], g_edgeSet = {}, g_distanceMatrix = [] \<rparr>)"
    by (rule fold_processNode_inv) simp
  then show ?thesis
    by (simp add: buildNetworkGraph_def Let_def graph_inv_def)
qed

lemma core_withResponseTimes: "map core (withResponseTimes es ns) = map core ns"
  by (simp add: withResponseTimes_def comp_def)

lemma core_nodes_optimizeNetwork: "map core (nodes (optimizeNetwork fs rs)) = buildNodes fs"
  using buildNetworkGraph_inv [of fs]
  by (simp add: nodes_optimizeNetwork core_withResponseTimes graph_inv_def core_buildNodes)

lemma edge_between_core:
  assumes "map core ns' = map core ns" and "edge_between ns a b e"
  shows "edge_between ns' a b e"
proof -
  from assms(2) have ab: "a < length ns" "b < length ns" by (simp_all add: edge_between_def Let_def)
  from assms(1) have len: "length ns' = length ns" by (metis length_map)
  have "facilityId (ns' ! a) = facilityId (ns ! a)" "lat (ns' ! a) = lat (ns ! a)"
    "lng (ns' ! a) = lng (ns ! a)"
    using core_eqD [OF map_core_nth [OF assms(1) ab(1)]] by simp_all
  moreover have "facilityId (ns' ! b) = facilityId (ns ! b)" "lat (ns' ! b) = lat (ns ! b)"
    "lng (ns' ! b) = lng (ns ! b)"
    using core_eqD [OF map_core_nth [OF assms(1) ab(2)]] by simp_all
  ultimately show ?thesis using assms(2) len by (simp add: edge_between_def Let_def)
qed

lemma edges_optimizeNetwork: "edges (optimizeNetwork fs rs) = g_edges (buildNetworkGraph fs)"
  by (simp add: optimizeNetwork_def Let_def)

lemma edge_between_distance: "edge_between ns a b e \<Longrightarrow> distance e \<le> 300"
  using formatDistance_short by (auto simp: edge_between_def Let_def)

text \<open>
  Claim C2, as amended. Every edge of the result joins two distinct nodes whose great-circle
  distance \<open>d\<close> is at most 300 km; the distance it stores is \<open>d\<close> rounded to one decimal,
  which is at most 300 too; and its travel time is \<open>d / speed \<times> 60\<close> rounded to one decimal,
  computed from the unrounded \<open>d\<close>, with the urban speed exactly when \<open>d < 20\<close>.
\<close>

theorem edges_within_threshold:
  "\<forall>e \<in> set (edges (optimizeNetwork fs rs)).
     distance e \<le> MAX_EDGE_DISTANCE \<and>
     (\<exists>i j. edge_between (nodes (optimizeNetwork fs rs)) i j e)"
proof
  fix e assume "e \<in> set (edges (optimizeNetwork fs rs))"
  then obtain a b where ab: "edge_between (buildNodes fs) a b e"
    using buildNetworkGraph_inv [of fs] by (auto simp: graph_inv_def edges_optimizeNetwork)
  have "map core (nodes (optimizeNetwork fs rs)) = map core (buildNodes fs)"
    by (simp add: core_nodes_optimizeNetwork core_buildNodes)
  from edge_between_core [OF this ab] edge_between_distance [OF ab]
  show "distance e \<le> MAX_EDGE_DISTANCE \<and> (\<exists>i j. edge_between (nodes (optimizeNetwork fs rs)) i j e)"
    by blast
qed

section \<open>One facility, and two facilities on a meridian\<close>

lemma fold_visitCandidate_self:
  "\<forall>j\<in>set js. j = i \<Longrightarrow> fold (visitCandidate ns i) js s = s"
  by (induction js) (simp_all add: visitCandidate_def)

lemma formatDistance_PInf: "formatDistance PInf = 2400"
  by (simp add: formatDistance_def)

lemma buildNetworkGraph_single:
  assumes "buildNodes fs = [n]"
  shows "buildNetworkGraph fs =
    \<lparr> g_nodes = [n\<lparr> nearestFacilityDistance := Fin 2400, nearestFacilityName := ''None'' \<rparr>],
      g_edges = [], g_edgeSet = {}, g_distanceMatrix = [] \<rparr>"
proof -
  have "\<forall>j\<in>set (getNearbyIndices (SpatialGrid [n]) (lat n) (lng n) 4). j = 0"
    using getNearbyIndices_bound [of _ "[n]"] by auto
  then have "fold (visitCandidate [n] 0) (getNearbyIndices (SpatialGrid [n]) (lat n) (lng n) 4) s = s" for s
    by (rule fold_visitCandidate_self)
  then show ?thesis
    using assms by (simp add: buildNetworkGraph_def processNode_def Let_def formatDistance_PInf)
qed

lemma estimateTravelTime_2400: "estimateTravelTime (Fin 2400) False = 2400"
  by (simp add: estimateTravelTime_def)

lemma nodeEdgeMap_Nil: "nodeEdgeMap [] = (\<lambda>_. [])"
  by (simp add: nodeEdgeMap_def)

lemma optimizeNetwork_single_nodes:
  assumes "buildNodes fs = [n]"
  shows "nodes (optimizeNetwork fs rs) =
     [n\<lparr> responseTimeMinutes := Fin 2400, nearestFacilityDistance := Fin 2400,
         nearestFacilityName := ''None'' \<rparr>]"
  by (simp add: nodes_optimizeNetwork buildNetworkGraph_single [OF assms] withResponseTimes_def
      nodeResponseTime_def nodeEdgeMap_Nil estimateTravelTime_2400)

lemma SpatialGrid_filter:
  "SpatialGrid ns c = filter (\<lambda>i. getCellKey (lat (ns ! i)) (lng (ns ! i)) = c) [0 ..< length ns]"
proof -
  have "fold (\<lambda>i grid. let key = getCellKey (lat (ns ! i)) (lng (ns ! i))
                     in grid (key := grid key @ [i])) is grid c
        = grid c @ filter (\<lambda>i. getCellKey (lat (ns ! i)) (lng (ns ! i)) = c) is" for "is" grid
    by (induction "is" arbitrary: grid) (simp_all add: Let_def)
  then show ?thesis by (simp add: SpatialGrid_def)
qed

lemma nearA: "getNearbyIndices (SpatialGrid [nA, nB]) 6 (- 1) 4 = [0, 1]"
  by code_simp

lemma nearB: "getNearbyIndices (SpatialGrid [nA, nB]) 6.1795 (- 1) 4 = [0, 1]"
  by code_simp


lemma nodesAB': "buildNodes [fA, fB] = [nA, nB]"
  by (simp add: buildNodes_def fA_def fB_def nA_def nB_def)

lemma distAB:
  "haversineDistance 6 (- 1) (12359 / 2000) (- 1) = 6371 * (0.1795 * 0.017453292519943295)"
  "haversineDistance (12359 / 2000) (- 1) 6 (- 1) = 6371 * (0.1795 * 0.017453292519943295)"
  by (simp_all add: haversine_meridian)

lemma stepA:
  "processNode (SpatialGrid [nA, nB]) 0
     \<lparr> g_nodes = [nA, nB], g_edges = [], g_edgeSet = {}, g_distanceMatrix = [] \<rparr> =
   \<lparr> g_nodes = [nA\<lparr> nearestFacilityDistance := Fin 20, nearestFacilityName := ''Clinic B'' \<rparr>, nB],
     g_edges = [eAB], g_edgeSet = {(0, 1)},
     g_distanceMatrix = [\<lparr> d_facilityId = ''A'', d_facilityName = ''Clinic A'',
        d_nearestFacilityId = ''B'', d_nearestFacilityName = ''Clinic B'',
        distanceKm = 20, travelTimeMinutes = 20 \<rparr>] \<rparr>"
proof -
  have near: "getNearbyIndices (SpatialGrid [nA, nB]) (lat nA) (lng nA) 4 = [0, 1]"
    using nearA by (simp add: nA_def)
  show ?thesis
    by (simp add: processNode_def Let_def near visitCandidate_def trackNearest_def)
       (simp add: nA_def nB_def distAB formatDistance_def estimateTravelTime_def round1_def
          round_def eAB_def)
qed


lemma stepB:
  "processNode (SpatialGrid [nA, nB]) 1
   \<lparr> g_nodes = [nA\<lparr> nearestFacilityDistance := Fin 20, nearestFacilityName := ''Clinic B'' \<rparr>, nB],
     g_edges = [eAB], g_edgeSet = {(0, 1)},
     g_distanceMatrix = [\<lparr> d_facilityId = ''A'', d_facilityName = ''Clinic A'',
        d_nearestFacilityId = ''B'', d_nearestFacilityName = ''Clinic B'',
        distanceKm = 20, travelTimeMinutes = 20 \<rparr>] \<rparr> = graphAB"
proof -
  have near: "getNearbyIndices (SpatialGrid [nA, nB]) (lat nB) (lng nB) 4 = [0, 1]"
    using nearB by (simp add: nB_def)
  show ?thesis
    by (simp add: processNode_def Let_def near visitCandidate_def trackNearest_def)
       (simp add: nA_def nB_def distAB formatDistance_def estimateTravelTime_def round1_def
          round_def graphAB_def)
qed

lemma buildNetworkGraph_AB: "buildNetworkGraph [fA, fB] = graphAB"
proof -
  have "[0 ..< length [nA, nB]] = [0, 1]" by (simp add: upt_rec)
  with stepA stepB show ?thesis
    by (simp add: buildNetworkGraph_def Let_def nodesAB')
qed


lemma edges_AB: "edges (optimizeNetwork [fA, fB] rs) = [eAB]"
  by (simp add: edges_optimizeNetwork buildNetworkGraph_AB graphAB_def)


section \<open>Distances and times within the display maxima\<close>

lemma formatDistance_le: "formatDistance d \<le> MAX_DISPLAY_DISTANCE"
proof (cases d)
  case (Fin x)
  show ?thesis
  proof (cases "x > 2400")
    case True
    with Fin show ?thesis by (simp add: formatDistance_def)
  next
    case False
    then have "round1 x \<le> of_int 24000 / 10" by (intro round1_le) simp
    with Fin False show ?thesis by (simp add: formatDistance_def)
  qed
qed (simp_all add: formatDistance_def)

lemma estimateTravelTime_le: "estimateTravelTime d u \<le> MAX_DISPLAY_TIME"
  by (cases d) (simp_all add: estimateTravelTime_def Let_def)

lemma processNode_nodes:
  assumes "i < length (g_nodes g)"
  shows "length (g_nodes (processNode grid i g)) = length (g_nodes g)"
    and "capped_node (g_nodes (processNode grid i g) ! i)"
    and "j \<noteq> i \<Longrightarrow> g_nodes (processNode grid i g) ! j = g_nodes g ! j"
  using assms formatDistance_le
  by (simp_all add: processNode_def Let_def capped_node_def)

lemma processNode_matrix:
  assumes "\<forall>d\<in>set (g_distanceMatrix g). capped_entry d"
  shows "\<forall>d\<in>set (g_distanceMatrix (processNode grid i g)). capped_entry d"
  using assms formatDistance_le estimateTravelTime_le
  by (auto simp: processNode_def Let_def capped_entry_def)

lemma fold_processNode_capped:
  assumes "k \<le> length (g_nodes g)" and "\<forall>d\<in>set (g_distanceMatrix g). capped_entry d"
  shows "length (g_nodes (fold (processNode grid) [0 ..< k] g)) = length (g_nodes g) \<and>
         (\<forall>j<k. capped_node (g_nodes (fold (processNode grid) [0 ..< k] g) ! j)) \<and>
         (\<forall>d\<in>set (g_distanceMatrix (fold (processNode grid) [0 ..< k] g)). capped_entry d)"
  using assms(1)
proof (induction k)
  case 0
  then show ?case using assms(2) by simp
next
  case (Suc k)
  let ?g = "fold (processNode grid) [0 ..< k] g"
  from Suc have ih: "length (g_nodes ?g) = length (g_nodes g)"
    "\<forall>j<k. capped_node (g_nodes ?g ! j)"
    "\<forall>d\<in>set (g_distanceMatrix ?g). capped_entry d"
    by simp_all
  have k: "k < length (g_nodes ?g)" using Suc.prems ih(1) by simp
  have step: "fold (processNode grid) [0 ..< Suc k] g = processNode grid k ?g" by simp
  have c: "capped_node (g_nodes (processNode grid k ?g) ! j)" if "j < Suc k" for j
  proof (cases "j = k")
    case True
    then show ?thesis using processNode_nodes(2) [OF k] by simp
  next
    case False
    with that have "j < k" by simp
    with ih(2) processNode_nodes(3) [OF k False] show ?thesis by simp
  qed
  have l: "length (g_nodes (processNode grid k ?g)) = length (g_nodes g)"
    using processNode_nodes(1) [OF k] ih(1) by simp
  have m: "\<forall>d\<in>set (g_distanceMatrix (processNode grid k ?g)). capped_entry d"
    by (rule processNode_matrix [OF ih(3)])
  show ?case
    unfolding step using c l m by simp
qed

lemma buildNetworkGraph_capped:
  "(\<forall>n\<in>set (g_nodes (buildNetworkGraph fs)). capped_node n) \<and>
   (\<forall>d\<in>set (g_distanceMatrix (buildNetworkGraph fs)). capped_entry d)"
proof (cases "buildNodes fs = []")
  case True
  then show ?thesis by (simp add: buildNetworkGraph_def)
next
  case False
  let ?init = "\<lparr> g_nodes = buildNodes fs, g_edges = [], g_edgeSet = {}, g_distanceMatrix = [] \<rparr>"
  let ?g = "fold (processNode (SpatialGrid (buildNodes fs))) [0 ..< length (buildNodes fs)] ?init"
  have "length (g_nodes ?g) = length (g_nodes ?init) \<and>
        (\<forall>j<length (buildNodes fs). capped_node (g_nodes ?g ! j)) \<and>
        (\<forall>d\<in>set (g_distanceMatrix ?g). capped_entry d)"
    by (rule fold_processNode_capped) simp_all
  then have "(\<forall>n\<in>set (g_nodes ?g). capped_node n) \<and> (\<forall>d\<in>set (g_distanceMatrix ?g). capped_entry d)"
    by (auto simp: in_set_conv_nth)
  with False show ?thesis by (simp add: buildNetworkGraph_def Let_def)
qed

lemma result_distances_capped:
  "(\<forall>n\<in>set (nodes (optimizeNetwork fs rs)).
      \<exists>d. nearestFacilityDistance n = Fin d \<and> d \<le> MAX_DISPLAY_DISTANCE) \<and>
   (\<forall>d\<in>set (facilityDistanceMatrix (optimizeNetwork fs rs)).
      distanceKm d \<le> MAX_DISPLAY_DISTANCE \<and> travelTimeMinutes d \<le> MAX_DISPLAY_TIME) \<and>
   (\<forall>g\<in>set (coverageGaps (optimizeNetwork fs rs)). nearestFacilityTime g \<le> MAX_DISPLAY_TIME)"
proof -
  have n: "\<exists>d. nearestFacilityDistance n = Fin d \<and> d \<le> MAX_DISPLAY_DISTANCE"
    if "n \<in> set (nodes (optimizeNetwork fs rs))" for n
  proof -
    from that obtain n0 where "n0 \<in> set (g_nodes (buildNetworkGraph fs))"
      and "nearestFacilityDistance n = nearestFacilityDistance n0"
      by (auto simp: nodes_optimizeNetwork withResponseTimes_def)
    moreover from this buildNetworkGraph_capped [of fs] have "capped_node n0" by blast
    ultimately show ?thesis
      by (cases "nearestFacilityDistance n0") (simp_all add: capped_node_def)
  qed
  have m: "\<forall>d\<in>set (facilityDistanceMatrix (optimizeNetwork fs rs)).
      distanceKm d \<le> MAX_DISPLAY_DISTANCE \<and> travelTimeMinutes d \<le> MAX_DISPLAY_TIME"
    using buildNetworkGraph_capped [of fs]
    by (simp add: optimizeNetwork_def Let_def capped_entry_def)
  have g: "nearestFacilityTime g \<le> MAX_DISPLAY_TIME"
    if "g \<in> set (coverageGaps (optimizeNetwork fs rs))" for g
  proof -
    from that obtain r ns where "g \<in> set (regionGap ns (regionNodeMap ns) r)"
      by (auto simp: optimizeNetwork_def Let_def detectCoverageGaps_unsorted collectGaps_def)
    then obtain ad t c where "regionAccess ns (regionFacilitiesOf (regionNodeMap ns) (rs_name r)) (rs_name r) = (ad, t, c)"
      and "nearestFacilityTime g = round1 t"
      by (cases "regionAccess ns (regionFacilitiesOf (regionNodeMap ns) (rs_name r)) (rs_name r)")
         (auto simp: regionGap_def split: if_splits)
    moreover from this obtain x u where "t = estimateTravelTime x u"
      using regionAccess_time by blast
    ultimately show ?thesis
      by (simp add: round1_estimateTravelTime estimateTravelTime_le)
  qed
  from n m g show ?thesis by blast
qed

section \<open>The coverage percentage\<close>





section \<open>Properties of the hub selection\<close>













section \<open>Distances that are not capped\<close>

lemma nodes_far: "nodes (optimizeNetwork [fFar] rs) = [nFar]"
proof -
  have "buildNodes [fFar] = [nFar\<lparr> responseTimeMinutes := Fin 0, nearestFacilityDistance := PInf \<rparr>]"
    by (simp add: buildNodes_def fFar_def nFar_def)
  from optimizeNetwork_single_nodes [OF this] show ?thesis by (simp add: nFar_def)
qed

lemma region_strings:
  "\<not> str_includes (toLowerCase ''Unknown'') (toLowerCase ''Ashanti'')"
  "\<not> str_includes (toLowerCase ''Ashanti'') (toLowerCase ''Unknown'')"
  by code_simp+

lemma centroid_Ashanti: "getRegionCentroid ''Ashanti'' = Some (6.6885, - 1.6244)"
  by code_simp

lemma regionFacilities_far: "regionFacilitiesOf (regionNodeMap [nFar]) ''Ashanti'' = []"
proof -
  have "regionNodeMap [nFar] = [(''Unknown'', [nFar])]"
    by (simp add: regionNodeMap_def nFar_def)
  then show ?thesis by (simp add: regionFacilitiesOf_def region_strings)
qed

lemma dist_far:
  "haversineDistance (13377 / 2000) (- (4061 / 2500)) (103 / 2) (- (4061 / 2500))
     = 6371 * (44.8115 * 0.017453292519943295)"
  by (simp add: haversine_meridian)

lemma regionAccess_far:
  "regionAccess [nFar] [] ''Ashanti'' =
     (6371 * (44.8115 * 0.017453292519943295), 2400, Some (6.6885, - 1.6244))"
  by (simp add: regionAccess_def Let_def centroid_Ashanti centroidDistance_def nFar_def dist_far
      estimateTravelTime_def round_def)

lemma gaps_far_replicate:
  "coverageGaps (optimizeNetwork [fFar] (replicate k rAshanti)) = replicate k gapFar"
proof -
  have "coverageGaps (optimizeNetwork [fFar] (replicate k rAshanti)) =
        detectCoverageGaps (nodes (optimizeNetwork [fFar] (replicate k rAshanti))) (replicate k rAshanti)"
    by (simp add: optimizeNetwork_def Let_def)
  also have "\<dots> = concat (replicate k (regionGap [nFar] (regionNodeMap [nFar]) rAshanti))"
    by (simp add: nodes_far detectCoverageGaps_unsorted collectGaps_def map_replicate_const)
  also have "regionGap [nFar] (regionNodeMap [nFar]) rAshanti = [gapFar]"
    by (simp add: regionGap_def rAshanti_def regionFacilities_far regionAccess_far round1_def
        round_def gapFar_def)
  also have "concat (replicate k [gapFar]) = replicate k gapFar"
    by (induction k) simp_all
  finally show ?thesis .
qed

lemma gaps_far: "coverageGaps (optimizeNetwork [fFar] [rAshanti]) = [gapFar]"
  using gaps_far_replicate [of 1] by simp

lemma recommended_empty_network:
  "map distanceFromNearest
     (recommendedNewFacilities (criticalInsights (optimizeNetwork [] [rAshanti]))) = [PInf]"
proof -
  have "criticalInsights (optimizeNetwork [] [rAshanti]) =
        generateCriticalInsights [] [] [emptyNetworkGap rAshanti]
          (metrics (optimizeNetwork [] [rAshanti]))"
    using optimizeNetwork_empty_parts [of "[rAshanti]"] by (simp add: optimizeNetwork_def Let_def)
  then show ?thesis
    by (simp add: generateCriticalInsights_def Let_def recommendedGaps_def emptyNetworkGap_def
        recommendedFacility_def nround1_def inf_of_sign_def)
qed

text \<open>
  Claim C3. Every distance reported in the result should be finite and capped at the display
  maximum of 2400 km. With no facility and one region summary, the recommended new facility
  reports the distance \<^verbatim>\<open>Infinity\<close> from the nearest existing facility; with one facility
  about 4983 km from the centroid of a region without facilities, the coverage gap of the region
  reports the distance 4982.8 km.
\<close>

theorem reported_distance_not_capped:
  "map distanceFromNearest
     (recommendedNewFacilities (criticalInsights (optimizeNetwork [] [rAshanti]))) = [PInf] \<and>
   map gap_nearestFacilityDistance (coverageGaps (optimizeNetwork [fFar] [rAshanti])) = [4982.8] \<and>
   \<not> (4982.8 \<le> MAX_DISPLAY_DISTANCE)"
  by (simp add: recommended_empty_network gaps_far gapFar_def)

section \<open>The statistics of a single response time\<close>

text \<open>
  Claim C8. A sample whose values are all equal should give standard error 0 and effect size 0,
  never \<^verbatim>\<open>NaN\<close>, every division being guarded. The division of the variance sum by
  \<^verbatim>\<open>n - 1\<close> is not guarded: for the sample of the single value 90 it is \<^verbatim>\<open>0/0\<close>, and the
  standard error and both ends of the confidence interval are \<^verbatim>\<open>NaN\<close>. The engine passes
  such a sample when exactly one facility has valid coordinates.
\<close>

theorem calculateStatistics_single_sample_NaN:
  "standardError (calculateStatistics [Fin 90]) = NaN \<and>
   confidenceInterval (calculateStatistics [Fin 90]) = (NaN, NaN) \<and>
   effectSize (calculateStatistics [Fin 90]) = Fin 0 \<and>
   map responseTimeMinutes (nodes (optimizeNetwork [fFar] [])) = [Fin 2400] \<and>
   standardError (statisticalAnalysis (optimizeNetwork [fFar] [])) = NaN"
proof -
  have s: "standardError (calculateStatistics [Fin x]) = NaN" for x
    by (simp add: calculateStatistics_def Let_def nsub_def ngt_def inf_of_sign_def)
  have "statisticalAnalysis (optimizeNetwork [fFar] []) =
        calculateStatistics (map responseTimeMinutes (nodes (optimizeNetwork [fFar] [])))"
    by (simp add: optimizeNetwork_def Let_def)
  then have "standardError (statisticalAnalysis (optimizeNetwork [fFar] [])) = NaN"
    by (simp add: nodes_far nFar_def s)
  moreover have "confidenceInterval (calculateStatistics [Fin 90]) = (NaN, NaN) \<and>
      effectSize (calculateStatistics [Fin 90]) = Fin 0"
    by (simp add: calculateStatistics_def Let_def nsub_def ngt_def inf_of_sign_def)
  ultimately show ?thesis by (simp add: s nodes_far nFar_def)
qed

section \<open>The properties on the example inputs\<close>

theorem edges_within_threshold_witness:
  "edges (optimizeNetwork [fA, fB] []) = [eAB] \<and> distance eAB \<le> MAX_EDGE_DISTANCE \<and>
   (\<exists>i j. edge_between (nodes (optimizeNetwork [fA, fB] [])) i j eAB)"
  using edges_within_threshold [of "[fA, fB]" "[]"] by (simp add: edges_AB)

text \<open>
  The travel time of an edge is not determined by the distance the edge stores: the edge of the
  two clinics stores 20.0 km, which is not below 20 and would give 20 minutes at the rural
  speed, while its travel time is 39.9 minutes, computed at the urban speed from 19.96 km.
\<close>

theorem edge_travel_time_counterexample:
  "edges (optimizeNetwork [fA, fB] []) = [eAB] \<and>
   distance eAB = 20 \<and> travelTime eAB = 39.9 \<and>
   travelTime eAB \<noteq>
     round1 (distance eAB / (if distance eAB < 20 then TRAVEL_SPEEDS_urban else TRAVEL_SPEEDS_rural) * 60)"
  by (simp add: edges_AB) (simp add: eAB_def round1_def)









end
